theory Spec2Isabelle
  imports Main "HOL-Library.Word" "HOL-Library.Char_ord" "HOL-Library.List_Lexorder"
begin

section \<open>JSON documents and the errors of encoding/json\<close>

text \<open>
  The completions client (completions.go) declares the request and response structs with
  their \<^verbatim>\<open>json\<close> tags and two entry points that post a request and unmarshal the
  reply. What the tags mean is the behaviour of Go's encoding/json; it is written out here
  on JSON documents: a number keeps its literal text, a string its decoded bytes, an object
  its members in the order of the text, duplicates included.
\<close>

datatype json =
    JNull
  | JBool bool
  | JNumber string
  | JString string
  | JArray "json list"
  | JObject "(string \<times> json) list"

text \<open>
  A byte slice is represented by what the scanner of encoding/json makes of it: text that is
  not valid JSON, or the document it denotes.
\<close>

datatype bytes = Invalid | Encodes json

text \<open>
  Go's \<^verbatim>\<open>error\<close> values. The errors of encoding/json are kept by kind (a
  mismatch between a JSON value and the Go type it is stored into is \<open>UnmarshalTypeError\<close>,
  also when a type's own unmarshaller reports it); \<open>Other\<close> is any other error
  value, such as those of the HTTP collaborator, named by its message.
\<close>

datatype error =
    SyntaxError
  | UnmarshalTypeError
  | UnsupportedValueError
  | MarshalerError
  | Other string

text \<open>Go's \<^verbatim>\<open>int\<close> is taken at its 64-bit size, read as a signed word.\<close>

type_synonym go_int = "64 word"
type_synonym uint64 = "64 word"
type_synonym float32 = "32 word"
type_synonym float64 = "64 word"

subsection \<open>strconv: integers\<close>

definition digit :: "nat \<Rightarrow> char" where
  "digit d = ''0123456789'' ! d"

fun digits :: "nat \<Rightarrow> string" where
  "digits n = (if n < 10 then [digit n] else digits (n div 10) @ [digit (n mod 10)])"

declare digits.simps [simp del]

definition FormatInt :: "int \<Rightarrow> string" where
  "FormatInt i = (if i < 0 then CHR ''-'' # digits (nat (- i)) else digits (nat i))"

definition isDigit :: "char \<Rightarrow> bool" where
  "isDigit c \<longleftrightarrow> (of_char (CHR ''0'') :: nat) \<le> of_char c \<and> (of_char c :: nat) \<le> of_char (CHR ''9'')"

definition digitVal :: "char \<Rightarrow> nat" where
  "digitVal c = of_char c - of_char (CHR ''0'')"

text \<open>\<open>ParseUint s 10 64\<close> without the range check: one or more decimal digits.\<close>

definition parseDigits :: "string \<Rightarrow> nat option" where
  "parseDigits s =
     (if s \<noteq> [] \<and> list_all isDigit s
      then Some (foldl (\<lambda>acc c. 10 * acc + digitVal c) 0 s) else None)"

text \<open>\<open>ParseInt s 10 64\<close>: an optional sign, then digits; out of range is an error.\<close>

definition ParseInt :: "string \<Rightarrow> int option" where
  "ParseInt s =
     (case (case s of
              c # cs \<Rightarrow> if c = CHR ''-'' then map_option (\<lambda>n. - int n) (parseDigits cs)
                        else if c = CHR ''+'' then map_option int (parseDigits cs)
                        else map_option int (parseDigits s)
            | [] \<Rightarrow> None) of
        None \<Rightarrow> None
      | Some i \<Rightarrow> if - (2 ^ 63) \<le> i \<and> i < 2 ^ 63 then Some i else None)"

definition ParseUint :: "string \<Rightarrow> nat option" where
  "ParseUint s =
     (case parseDigits s of
        None \<Rightarrow> None
      | Some n \<Rightarrow> if n < 2 ^ 64 then Some n else None)"

subsection \<open>strconv: floating point\<close>

text \<open>
  A float is its IEEE 754 bit pattern. Which decimal literal strconv prints for a finite
  float, and which float it reads from a literal, is not computed here: the four
  conversions are parameters of the model. What encoding/json itself decides is written
  out: NaN and the infinities are refused, and a float is "empty" when it compares equal
  to zero.
\<close>

record strconv =
  FormatFloat32 :: "float32 \<Rightarrow> string"
  ParseFloat32 :: "string \<Rightarrow> float32 option"
  FormatFloat64 :: "float64 \<Rightarrow> string"
  ParseFloat64 :: "string \<Rightarrow> float64 option"

definition isFinite32 :: "float32 \<Rightarrow> bool" where
  "isFinite32 f \<longleftrightarrow> and (drop_bit 23 f) 0xFF \<noteq> 0xFF"

definition isFinite64 :: "float64 \<Rightarrow> bool" where
  "isFinite64 f \<longleftrightarrow> and (drop_bit 52 f) 0x7FF \<noteq> 0x7FF"

definition isZero32 :: "float32 \<Rightarrow> bool" where
  "isZero32 f \<longleftrightarrow> f = 0 \<or> f = 0x80000000"

subsection \<open>Unmarshal: a JSON value stored into a Go value\<close>

text \<open>
  Every decoder takes the JSON value and the Go value already held by the target and gives
  the new value, or an error. JSON \<^verbatim>\<open>null\<close> sets a pointer, slice or map to nil and
  leaves any other target as it is. (Go goes on decoding after a type mismatch and reports it
  at the end; since the callers here drop the target on any error, the first mismatch ends
  the decoding.)
\<close>

definition decString :: "json \<Rightarrow> string \<Rightarrow> error + string" where
  "decString j old =
     (case j of JNull \<Rightarrow> Inr old | JString s \<Rightarrow> Inr s | _ \<Rightarrow> Inl UnmarshalTypeError)"

definition decBool :: "json \<Rightarrow> bool \<Rightarrow> error + bool" where
  "decBool j old =
     (case j of JNull \<Rightarrow> Inr old | JBool b \<Rightarrow> Inr b | _ \<Rightarrow> Inl UnmarshalTypeError)"

definition decInt :: "json \<Rightarrow> go_int \<Rightarrow> error + go_int" where
  "decInt j old =
     (case j of
        JNull \<Rightarrow> Inr old
      | JNumber l \<Rightarrow> (case ParseInt l of
                        Some i \<Rightarrow> Inr (word_of_int i)
                      | None \<Rightarrow> Inl UnmarshalTypeError)
      | _ \<Rightarrow> Inl UnmarshalTypeError)"

definition decUint64 :: "json \<Rightarrow> uint64 \<Rightarrow> error + uint64" where
  "decUint64 j old =
     (case j of
        JNull \<Rightarrow> Inr old
      | JNumber l \<Rightarrow> (case ParseUint l of
                        Some n \<Rightarrow> Inr (word_of_nat n)
                      | None \<Rightarrow> Inl UnmarshalTypeError)
      | _ \<Rightarrow> Inl UnmarshalTypeError)"

definition decFloat32 :: "strconv \<Rightarrow> json \<Rightarrow> float32 \<Rightarrow> error + float32" where
  "decFloat32 sc j old =
     (case j of
        JNull \<Rightarrow> Inr old
      | JNumber l \<Rightarrow> (case ParseFloat32 sc l of
                        Some f \<Rightarrow> Inr f
                      | None \<Rightarrow> Inl UnmarshalTypeError)
      | _ \<Rightarrow> Inl UnmarshalTypeError)"

definition decFloat64 :: "strconv \<Rightarrow> json \<Rightarrow> float64 \<Rightarrow> error + float64" where
  "decFloat64 sc j old =
     (case j of
        JNull \<Rightarrow> Inr old
      | JNumber l \<Rightarrow> (case ParseFloat64 sc l of
                        Some f \<Rightarrow> Inr f
                      | None \<Rightarrow> Inl UnmarshalTypeError)
      | _ \<Rightarrow> Inl UnmarshalTypeError)"

text \<open>A pointer: \<^verbatim>\<open>null\<close> makes it nil; otherwise a nil pointer is allocated first.\<close>

definition decPtr ::
  "(json \<Rightarrow> 'a \<Rightarrow> error + 'a) \<Rightarrow> 'a \<Rightarrow> json \<Rightarrow> 'a option \<Rightarrow> error + 'a option" where
  "decPtr dec zero j old =
     (case j of
        JNull \<Rightarrow> Inr None
      | _ \<Rightarrow> (case dec j (case old of None \<Rightarrow> zero | Some a \<Rightarrow> a) of
                Inl e \<Rightarrow> Inl e
              | Inr a \<Rightarrow> Inr (Some a)))"

text \<open>
  A slice is its sequence of elements (a nil and an empty slice both have length 0). The
  i-th entry of the array is decoded into the i-th element the slice already has, or into
  a zero element beyond its length; the slice ends with as many elements as the array.
  (Elements of an earlier decoding left between length and capacity are not modelled;
  they need the same key three times in one object.)
\<close>

fun decElems ::
  "(json \<Rightarrow> 'a \<Rightarrow> error + 'a) \<Rightarrow> 'a \<Rightarrow> json list \<Rightarrow> 'a list \<Rightarrow> error + 'a list" where
  "decElems dec zero [] old = Inr []"
| "decElems dec zero (j # js) old =
     (case dec j (case old of [] \<Rightarrow> zero | a # _ \<Rightarrow> a) of
        Inl e \<Rightarrow> Inl e
      | Inr a \<Rightarrow> (case decElems dec zero js (case old of [] \<Rightarrow> [] | _ # rest \<Rightarrow> rest) of
                  Inl e \<Rightarrow> Inl e
                | Inr as \<Rightarrow> Inr (a # as)))"

definition decSlice ::
  "(json \<Rightarrow> 'a \<Rightarrow> error + 'a) \<Rightarrow> 'a \<Rightarrow> json \<Rightarrow> 'a list \<Rightarrow> error + 'a list" where
  "decSlice dec zero j old =
     (case j of
        JNull \<Rightarrow> Inr []
      | JArray js \<Rightarrow> decElems dec zero js old
      | _ \<Rightarrow> Inl UnmarshalTypeError)"

text \<open>
  A \<^verbatim>\<open>map[string]V\<close> is the list of its entries in ascending key order, the order in
  which Marshal writes them. Each member of the object is decoded into a fresh zero value
  and stored under its key.
\<close>

fun mapSet :: "string \<Rightarrow> 'v \<Rightarrow> (string \<times> 'v) list \<Rightarrow> (string \<times> 'v) list" where
  "mapSet k v [] = [(k, v)]"
| "mapSet k v ((k', v') # m) =
     (if k < k' then (k, v) # (k', v') # m
      else if k = k' then (k, v) # m
      else (k', v') # mapSet k v m)"

fun decMembers ::
  "(json \<Rightarrow> 'v \<Rightarrow> error + 'v) \<Rightarrow> 'v \<Rightarrow> (string \<times> json) list \<Rightarrow> (string \<times> 'v) list
     \<Rightarrow> error + (string \<times> 'v) list" where
  "decMembers dec zero [] m = Inr m"
| "decMembers dec zero ((k, j) # kvs) m =
     (case dec j zero of
        Inl e \<Rightarrow> Inl e
      | Inr v \<Rightarrow> decMembers dec zero kvs (mapSet k v m))"

definition decMap ::
  "(json \<Rightarrow> 'v \<Rightarrow> error + 'v) \<Rightarrow> 'v \<Rightarrow> json \<Rightarrow> (string \<times> 'v) list
     \<Rightarrow> error + (string \<times> 'v) list" where
  "decMap dec zero j old =
     (case j of
        JNull \<Rightarrow> Inr []
      | JObject kvs \<Rightarrow> decMembers dec zero kvs old
      | _ \<Rightarrow> Inl UnmarshalTypeError)"

text \<open>
  A struct: each member of the object, in order, is stored into the field whose tag name
  is the key, or else into the first field whose name matches it under case folding; a key
  that matches no field is skipped. All field names here are lower-case ASCII, so a key
  matches when its ASCII letters agree up to case, where the Kelvin sign (U+212A) counts as
  k and the long s (U+017F) as s.
\<close>

definition toLower :: "char \<Rightarrow> char" where
  "toLower c =
     (if (of_char (CHR ''A'') :: nat) \<le> of_char c \<and> (of_char c :: nat) \<le> of_char (CHR ''Z'')
      then char_of (of_char c + (32 :: nat)) else c)"

fun foldName :: "string \<Rightarrow> string" where
  "foldName (a # b # c # s) =
     (if a = CHR 0xE2 \<and> b = CHR 0x84 \<and> c = CHR 0xAA then CHR ''k'' # foldName s
      else if a = CHR 0xC5 \<and> b = CHR 0xBF then CHR ''s'' # foldName (c # s)
      else toLower a # foldName (b # c # s))"
| "foldName [a, b] =
     (if a = CHR 0xC5 \<and> b = CHR 0xBF then [CHR ''s''] else toLower a # foldName [b])"
| "foldName [a] = [toLower a]"
| "foldName [] = []"

definition fieldFor :: "string list \<Rightarrow> string \<Rightarrow> string option" where
  "fieldFor names k =
     (if k \<in> set names then Some k else find (\<lambda>n. foldName n = foldName k) names)"

fun decFields ::
  "string list \<Rightarrow> (string \<Rightarrow> json \<Rightarrow> 'r \<Rightarrow> error + 'r) \<Rightarrow> (string \<times> json) list \<Rightarrow> 'r
     \<Rightarrow> error + 'r" where
  "decFields names store [] r = Inr r"
| "decFields names store ((k, j) # kvs) r =
     (case fieldFor names k of
        None \<Rightarrow> decFields names store kvs r
      | Some n \<Rightarrow> (case store n j r of
                    Inl e \<Rightarrow> Inl e
                  | Inr r' \<Rightarrow> decFields names store kvs r'))"

definition decStruct ::
  "string list \<Rightarrow> (string \<Rightarrow> json \<Rightarrow> 'r \<Rightarrow> error + 'r) \<Rightarrow> json \<Rightarrow> 'r \<Rightarrow> error + 'r" where
  "decStruct names store j r =
     (case j of
        JNull \<Rightarrow> Inr r
      | JObject kvs \<Rightarrow> decFields names store kvs r
      | _ \<Rightarrow> Inl UnmarshalTypeError)"

text \<open>\<^verbatim>\<open>json.Unmarshal(b, v)\<close>: the syntax of the whole text is checked before anything is stored.\<close>

definition Unmarshal :: "(json \<Rightarrow> 'a \<Rightarrow> error + 'a) \<Rightarrow> bytes \<Rightarrow> 'a \<Rightarrow> error + 'a" where
  "Unmarshal dec b v = (case b of Invalid \<Rightarrow> Inl SyntaxError | Encodes j \<Rightarrow> dec j v)"

text \<open>The result of a type's own decoder, declared outside this file.\<close>

definition ofOption :: "'a option \<Rightarrow> error + 'a" where
  "ofOption r = (case r of None \<Rightarrow> Inl UnmarshalTypeError | Some a \<Rightarrow> Inr a)"

section \<open>The response types of completions.go\<close>

text \<open>
  The model identifier \<open>'m\<close> (models.Completion or models.FineTunedModel), objects.Object
  (\<open>'o\<close>) and Usage (\<open>'u\<close>) are declared in other files of the repository. They enter as type
  parameters, each with its zero value and the way encoding/json stores a JSON value into it.
\<close>

record 'm model_codec =
  zeroModel :: 'm
  marshalModel :: "'m \<Rightarrow> json option"
  unmarshalModel :: "json \<Rightarrow> 'm \<Rightarrow> 'm option"

record ('o, 'u) collaborators =
  zeroObject :: 'o
  unmarshalObject :: "json \<Rightarrow> 'o \<Rightarrow> 'o option"
  zeroUsage :: 'u
  unmarshalUsage :: "json \<Rightarrow> 'u \<Rightarrow> 'u option"

record LogprobResult =
  Tokens :: "string list"
  TokenLogprobs :: "float32 list"
  TopLogprobs :: "(string \<times> float32) list list"
  TextOffset :: "go_int list"

record CompletionChoice =
  Text :: string
  Index :: go_int
  FinishReason :: string
  ChoiceLogProbs :: "LogprobResult option"

record ('m, 'o, 'u) CompletionResponse =
  ID :: string
  Object :: 'o
  Created :: uint64
  RespModel :: 'm
  Choices :: "CompletionChoice option list"
  Usage :: "'u option"

definition zeroLogprobResult :: LogprobResult where
  "zeroLogprobResult = \<lparr>Tokens = [], TokenLogprobs = [], TopLogprobs = [], TextOffset = []\<rparr>"

definition zeroCompletionChoice :: CompletionChoice where
  "zeroCompletionChoice = \<lparr>Text = [], Index = 0, FinishReason = [], ChoiceLogProbs = None\<rparr>"

definition zeroCompletionResponse ::
  "'m model_codec \<Rightarrow> ('o, 'u) collaborators \<Rightarrow> ('m, 'o, 'u) CompletionResponse" where
  "zeroCompletionResponse mc co =
     \<lparr>ID = [], Object = zeroObject co, Created = 0, RespModel = zeroModel mc, Choices = [],
      Usage = None\<rparr>"

definition logprobFields :: "string list" where
  "logprobFields = [''tokens'', ''token_logprobs'', ''top_logprobs'', ''text_offset'']"

definition storeLogprobField ::
  "strconv \<Rightarrow> string \<Rightarrow> json \<Rightarrow> LogprobResult \<Rightarrow> error + LogprobResult" where
  "storeLogprobField sc name j r =
     (if name = ''tokens'' then
        (case decSlice decString [] j (Tokens r) of
           Inl e \<Rightarrow> Inl e | Inr v \<Rightarrow> Inr (r\<lparr>Tokens := v\<rparr>))
      else if name = ''token_logprobs'' then
        (case decSlice (decFloat32 sc) 0 j (TokenLogprobs r) of
           Inl e \<Rightarrow> Inl e | Inr v \<Rightarrow> Inr (r\<lparr>TokenLogprobs := v\<rparr>))
      else if name = ''top_logprobs'' then
        (case decSlice (decMap (decFloat32 sc) 0) [] j (TopLogprobs r) of
           Inl e \<Rightarrow> Inl e | Inr v \<Rightarrow> Inr (r\<lparr>TopLogprobs := v\<rparr>))
      else
        (case decSlice decInt 0 j (TextOffset r) of
           Inl e \<Rightarrow> Inl e | Inr v \<Rightarrow> Inr (r\<lparr>TextOffset := v\<rparr>)))"

definition decLogprobResult :: "strconv \<Rightarrow> json \<Rightarrow> LogprobResult \<Rightarrow> error + LogprobResult" where
  "decLogprobResult sc = decStruct logprobFields (storeLogprobField sc)"

definition choiceFields :: "string list" where
  "choiceFields = [''text'', ''index'', ''finish_reason'', ''logprobs'']"

definition storeChoiceField ::
  "strconv \<Rightarrow> string \<Rightarrow> json \<Rightarrow> CompletionChoice \<Rightarrow> error + CompletionChoice" where
  "storeChoiceField sc name j r =
     (if name = ''text'' then
        (case decString j (Text r) of
           Inl e \<Rightarrow> Inl e | Inr v \<Rightarrow> Inr (r\<lparr>Text := v\<rparr>))
      else if name = ''index'' then
        (case decInt j (Index r) of
           Inl e \<Rightarrow> Inl e | Inr v \<Rightarrow> Inr (r\<lparr>Index := v\<rparr>))
      else if name = ''finish_reason'' then
        (case decString j (FinishReason r) of
           Inl e \<Rightarrow> Inl e | Inr v \<Rightarrow> Inr (r\<lparr>FinishReason := v\<rparr>))
      else
        (case decPtr (decLogprobResult sc) zeroLogprobResult j (ChoiceLogProbs r) of
           Inl e \<Rightarrow> Inl e | Inr v \<Rightarrow> Inr (r\<lparr>ChoiceLogProbs := v\<rparr>)))"

definition decCompletionChoice ::
  "strconv \<Rightarrow> json \<Rightarrow> CompletionChoice \<Rightarrow> error + CompletionChoice" where
  "decCompletionChoice sc = decStruct choiceFields (storeChoiceField sc)"

definition responseFields :: "string list" where
  "responseFields = [''id'', ''object'', ''created'', ''model'', ''choices'', ''usage'']"

definition storeResponseField ::
  "strconv \<Rightarrow> 'm model_codec \<Rightarrow> ('o, 'u) collaborators \<Rightarrow> string \<Rightarrow> json
     \<Rightarrow> ('m, 'o, 'u) CompletionResponse \<Rightarrow> error + ('m, 'o, 'u) CompletionResponse" where
  "storeResponseField sc mc co name j r =
     (if name = ''id'' then
        (case decString j (ID r) of
           Inl e \<Rightarrow> Inl e | Inr v \<Rightarrow> Inr (r\<lparr>ID := v\<rparr>))
      else if name = ''object'' then
        (case ofOption (unmarshalObject co j (Object r)) of
           Inl e \<Rightarrow> Inl e | Inr v \<Rightarrow> Inr (r\<lparr>Object := v\<rparr>))
      else if name = ''created'' then
        (case decUint64 j (Created r) of
           Inl e \<Rightarrow> Inl e | Inr v \<Rightarrow> Inr (r\<lparr>Created := v\<rparr>))
      else if name = ''model'' then
        (case ofOption (unmarshalModel mc j (RespModel r)) of
           Inl e \<Rightarrow> Inl e | Inr v \<Rightarrow> Inr (r\<lparr>RespModel := v\<rparr>))
      else if name = ''choices'' then
        (case decSlice (decPtr (decCompletionChoice sc) zeroCompletionChoice) None j (Choices r) of
           Inl e \<Rightarrow> Inl e | Inr v \<Rightarrow> Inr (r\<lparr>Choices := v\<rparr>))
      else
        (case decPtr (\<lambda>j u. ofOption (unmarshalUsage co j u)) (zeroUsage co) j (Usage r) of
           Inl e \<Rightarrow> Inl e | Inr v \<Rightarrow> Inr (r\<lparr>Usage := v\<rparr>)))"

definition decCompletionResponse ::
  "strconv \<Rightarrow> 'm model_codec \<Rightarrow> ('o, 'u) collaborators \<Rightarrow> json
     \<Rightarrow> ('m, 'o, 'u) CompletionResponse \<Rightarrow> error + ('m, 'o, 'u) CompletionResponse" where
  "decCompletionResponse sc mc co = decStruct responseFields (storeResponseField sc mc co)"

section \<open>The request type of completions.go\<close>

subsection \<open>Marshal: strings\<close>

text \<open>
  Marshal writes a Go string as a JSON string coerced to valid UTF-8: every byte that does
  not start a well-formed sequence becomes U+FFFD (the bytes EF BF BD). \<open>runeLen\<close> is the
  length of the well-formed sequence at the head of the string (\<^verbatim>\<open>utf8.DecodeRune\<close>),
  0 when there is none.
\<close>

definition inRange :: "nat \<Rightarrow> nat \<Rightarrow> char \<Rightarrow> bool" where
  "inRange lo hi c \<longleftrightarrow> lo \<le> of_char c \<and> (of_char c :: nat) \<le> hi"

fun runeLen :: "string \<Rightarrow> nat" where
  "runeLen [] = 0"
| "runeLen (a # s) =
     (let x = (of_char a :: nat) in
      if x < 0x80 then 1
      else if 0xC2 \<le> x \<and> x \<le> 0xDF then
        (case s of b # _ \<Rightarrow> if inRange 0x80 0xBF b then 2 else 0 | _ \<Rightarrow> 0)
      else if 0xE0 \<le> x \<and> x \<le> 0xEF then
        (case s of
           b # c # _ \<Rightarrow>
             if inRange (if x = 0xE0 then 0xA0 else 0x80) (if x = 0xED then 0x9F else 0xBF) b
                \<and> inRange 0x80 0xBF c
             then 3 else 0
         | _ \<Rightarrow> 0)
      else if 0xF0 \<le> x \<and> x \<le> 0xF4 then
        (case s of
           b # c # d # _ \<Rightarrow>
             if inRange (if x = 0xF0 then 0x90 else 0x80) (if x = 0xF4 then 0x8F else 0xBF) b
                \<and> inRange 0x80 0xBF c \<and> inRange 0x80 0xBF d
             then 4 else 0
         | _ \<Rightarrow> 0)
      else 0)"

function coerceUTF8 :: "string \<Rightarrow> string" where
  "coerceUTF8 [] = []"
| "coerceUTF8 (a # s) =
     (if runeLen (a # s) = 0 then [CHR 0xEF, CHR 0xBF, CHR 0xBD] @ coerceUTF8 s
      else take (runeLen (a # s)) (a # s) @ coerceUTF8 (drop (runeLen (a # s)) (a # s)))"
  by pat_completeness auto
termination
  by (relation "measure length") auto

definition validUTF8 :: "string \<Rightarrow> bool" where
  "validUTF8 s \<longleftrightarrow> coerceUTF8 s = s"

subsection \<open>Marshal: values and struct members\<close>

definition encString :: "string \<Rightarrow> json" where
  "encString s = JString (coerceUTF8 s)"

definition encBool :: "bool \<Rightarrow> json" where
  "encBool b = JBool b"

definition encInt :: "go_int \<Rightarrow> json" where
  "encInt i = JNumber (FormatInt (sint i))"

definition encFloat32 :: "strconv \<Rightarrow> float32 \<Rightarrow> error + json" where
  "encFloat32 sc f =
     (if isFinite32 f then Inr (JNumber (FormatFloat32 sc f)) else Inl UnsupportedValueError)"

definition encFloat64 :: "strconv \<Rightarrow> float64 \<Rightarrow> error + json" where
  "encFloat64 sc f =
     (if isFinite64 f then Inr (JNumber (FormatFloat64 sc f)) else Inl UnsupportedValueError)"

definition encStrings :: "string list \<Rightarrow> json" where
  "encStrings xs = JArray (map encString xs)"

definition encIntMap :: "(string \<times> go_int) list \<Rightarrow> json" where
  "encIntMap m = JObject (map (\<lambda>(k, v). (coerceUTF8 k, encInt v)) m)"

definition encModel :: "'m model_codec \<Rightarrow> 'm \<Rightarrow> error + json" where
  "encModel mc m = (case marshalModel mc m of None \<Rightarrow> Inl MarshalerError | Some j \<Rightarrow> Inr j)"

text \<open>
  A struct field tagged \<^verbatim>\<open>json:"key"\<close> is always written; one tagged
  \<^verbatim>\<open>json:"key,omitempty"\<close> is left out when its value is empty: false, 0, a nil
  pointer, or a string, slice or map of length 0.
\<close>

definition always :: "string \<Rightarrow> error + json \<Rightarrow> error + (string \<times> json) list" where
  "always key v = (case v of Inl e \<Rightarrow> Inl e | Inr j \<Rightarrow> Inr [(key, j)])"

definition omitempty ::
  "string \<Rightarrow> bool \<Rightarrow> error + json \<Rightarrow> error + (string \<times> json) list" where
  "omitempty key isEmpty v = (if isEmpty then Inr [] else always key v)"

fun members :: "(error + (string \<times> json) list) list \<Rightarrow> error + (string \<times> json) list" where
  "members [] = Inr []"
| "members (f # fs) =
     (case f of
        Inl e \<Rightarrow> Inl e
      | Inr ms \<Rightarrow> (case members fs of Inl e \<Rightarrow> Inl e | Inr rest \<Rightarrow> Inr (ms @ rest)))"

subsection \<open>CompletionRequest\<close>

text \<open>
  The fields in the order of the struct. A pointer field is an option; a slice or map field is
  its elements, since Marshal treats a nil and an empty one alike under
  \<^verbatim>\<open>omitempty\<close>.
\<close>

record 'm CompletionRequest =
  Model :: 'm
  Prompt :: string
  Suffix :: string
  MaxTokens :: go_int
  Temperature :: "float64 option"
  TopP :: "float64 option"
  N :: go_int
  Stream :: bool
  LogProbs :: "go_int option"
  Echo :: bool
  Stop :: "string list"
  PresencePenalty :: float32
  FrequencyPenalty :: float32
  BestOf :: go_int
  LogitBias :: "(string \<times> go_int) list"
  User :: string

definition zeroCompletionRequest :: "'m model_codec \<Rightarrow> 'm CompletionRequest" where
  "zeroCompletionRequest mc =
     \<lparr>Model = zeroModel mc, Prompt = [], Suffix = [], MaxTokens = 0, Temperature = None,
      TopP = None, N = 0, Stream = False, LogProbs = None, Echo = False, Stop = [],
      PresencePenalty = 0, FrequencyPenalty = 0, BestOf = 0, LogitBias = [], User = []\<rparr>"

definition MarshalRequest ::
  "strconv \<Rightarrow> 'm model_codec \<Rightarrow> 'm CompletionRequest \<Rightarrow> error + json" where
  "MarshalRequest sc mc r =
     (case members
        [always ''model'' (encModel mc (Model r)),
         omitempty ''prompt'' (Prompt r = []) (Inr (encString (Prompt r))),
         omitempty ''suffix'' (Suffix r = []) (Inr (encString (Suffix r))),
         omitempty ''max_tokens'' (MaxTokens r = 0) (Inr (encInt (MaxTokens r))),
         omitempty ''temperature'' (Temperature r = None)
           (case Temperature r of None \<Rightarrow> Inr JNull | Some f \<Rightarrow> encFloat64 sc f),
         omitempty ''top_p'' (TopP r = None)
           (case TopP r of None \<Rightarrow> Inr JNull | Some f \<Rightarrow> encFloat64 sc f),
         omitempty ''n'' (N r = 0) (Inr (encInt (N r))),
         omitempty ''stream'' (\<not> Stream r) (Inr (encBool (Stream r))),
         omitempty ''logprobs'' (LogProbs r = None)
           (case LogProbs r of None \<Rightarrow> Inr JNull | Some i \<Rightarrow> Inr (encInt i)),
         omitempty ''echo'' (\<not> Echo r) (Inr (encBool (Echo r))),
         omitempty ''stop'' (Stop r = []) (Inr (encStrings (Stop r))),
         omitempty ''presence_penalty'' (isZero32 (PresencePenalty r))
           (encFloat32 sc (PresencePenalty r)),
         omitempty ''frequency_penalty'' (isZero32 (FrequencyPenalty r))
           (encFloat32 sc (FrequencyPenalty r)),
         omitempty ''best_of'' (BestOf r = 0) (Inr (encInt (BestOf r))),
         omitempty ''logit_bias'' (LogitBias r = []) (Inr (encIntMap (LogitBias r))),
         omitempty ''user'' (User r = []) (Inr (encString (User r)))] of
        Inl e \<Rightarrow> Inl e
      | Inr ms \<Rightarrow> Inr (JObject ms))"


definition requestFields :: "string list" where
  "requestFields =
     [''model'', ''prompt'', ''suffix'', ''max_tokens'', ''temperature'', ''top_p'', ''n'',
      ''stream'', ''logprobs'', ''echo'', ''stop'', ''presence_penalty'', ''frequency_penalty'',
      ''best_of'', ''logit_bias'', ''user'']"

definition storeRequestField ::
  "strconv \<Rightarrow> 'm model_codec \<Rightarrow> string \<Rightarrow> json \<Rightarrow> 'm CompletionRequest
     \<Rightarrow> error + 'm CompletionRequest" where
  "storeRequestField sc mc name j r =
     (if name = ''model'' then
        (case ofOption (unmarshalModel mc j (Model r)) of
           Inl e \<Rightarrow> Inl e | Inr v \<Rightarrow> Inr (r\<lparr>Model := v\<rparr>))
      else if name = ''prompt'' then
        (case decString j (Prompt r) of
           Inl e \<Rightarrow> Inl e | Inr v \<Rightarrow> Inr (r\<lparr>Prompt := v\<rparr>))
      else if name = ''suffix'' then
        (case decString j (Suffix r) of
           Inl e \<Rightarrow> Inl e | Inr v \<Rightarrow> Inr (r\<lparr>Suffix := v\<rparr>))
      else if name = ''max_tokens'' then
        (case decInt j (MaxTokens r) of
           Inl e \<Rightarrow> Inl e | Inr v \<Rightarrow> Inr (r\<lparr>MaxTokens := v\<rparr>))
      else if name = ''temperature'' then
        (case decPtr (decFloat64 sc) 0 j (Temperature r) of
           Inl e \<Rightarrow> Inl e | Inr v \<Rightarrow> Inr (r\<lparr>Temperature := v\<rparr>))
      else if name = ''top_p'' then
        (case decPtr (decFloat64 sc) 0 j (TopP r) of
           Inl e \<Rightarrow> Inl e | Inr v \<Rightarrow> Inr (r\<lparr>TopP := v\<rparr>))
      else if name = ''n'' then
        (case decInt j (N r) of
           Inl e \<Rightarrow> Inl e | Inr v \<Rightarrow> Inr (r\<lparr>N := v\<rparr>))
      else if name = ''stream'' then
        (case decBool j (Stream r) of
           Inl e \<Rightarrow> Inl e | Inr v \<Rightarrow> Inr (r\<lparr>Stream := v\<rparr>))
      else if name = ''logprobs'' then
        (case decPtr decInt 0 j (LogProbs r) of
           Inl e \<Rightarrow> Inl e | Inr v \<Rightarrow> Inr (r\<lparr>LogProbs := v\<rparr>))
      else if name = ''echo'' then
        (case decBool j (Echo r) of
           Inl e \<Rightarrow> Inl e | Inr v \<Rightarrow> Inr (r\<lparr>Echo := v\<rparr>))
      else if name = ''stop'' then
        (case decSlice decString [] j (Stop r) of
           Inl e \<Rightarrow> Inl e | Inr v \<Rightarrow> Inr (r\<lparr>Stop := v\<rparr>))
      else if name = ''presence_penalty'' then
        (case decFloat32 sc j (PresencePenalty r) of
           Inl e \<Rightarrow> Inl e | Inr v \<Rightarrow> Inr (r\<lparr>PresencePenalty := v\<rparr>))
      else if name = ''frequency_penalty'' then
        (case decFloat32 sc j (FrequencyPenalty r) of
           Inl e \<Rightarrow> Inl e | Inr v \<Rightarrow> Inr (r\<lparr>FrequencyPenalty := v\<rparr>))
      else if name = ''best_of'' then
        (case decInt j (BestOf r) of
           Inl e \<Rightarrow> Inl e | Inr v \<Rightarrow> Inr (r\<lparr>BestOf := v\<rparr>))
      else if name = ''logit_bias'' then
        (case decMap decInt 0 j (LogitBias r) of
           Inl e \<Rightarrow> Inl e | Inr v \<Rightarrow> Inr (r\<lparr>LogitBias := v\<rparr>))
      else
        (case decString j (User r) of
           Inl e \<Rightarrow> Inl e | Inr v \<Rightarrow> Inr (r\<lparr>User := v\<rparr>)))"

definition decCompletionRequest ::
  "strconv \<Rightarrow> 'm model_codec \<Rightarrow> json \<Rightarrow> 'm CompletionRequest \<Rightarrow> error + 'm CompletionRequest" where
  "decCompletionRequest sc mc = decStruct requestFields (storeRequestField sc mc)"

subsection \<open>What a round trip can keep\<close>

text \<open>
  An omitted penalty comes back as +0, so a penalty of -0 (which is empty, being equal to
  zero) is read back as +0. A request's strings are valid when Marshal writes them unchanged;
  the keys of a map are in ascending order by its representation; and the round trip of a
  float is strconv's: the literal printed for a float reads back as that float.
\<close>

definition canonZero32 :: "float32 \<Rightarrow> float32" where
  "canonZero32 f = (if isZero32 f then 0 else f)"

definition validStrings :: "'m CompletionRequest \<Rightarrow> bool" where
  "validStrings r \<longleftrightarrow>
     validUTF8 (Prompt r) \<and> validUTF8 (Suffix r) \<and> validUTF8 (User r)
     \<and> list_all validUTF8 (Stop r) \<and> list_all validUTF8 (map fst (LogitBias r))"

definition keysAscending :: "(string \<times> 'v) list \<Rightarrow> bool" where
  "keysAscending m = sorted_wrt (<) (map fst m)"

definition floatsRoundTrip :: "strconv \<Rightarrow> 'm CompletionRequest \<Rightarrow> bool" where
  "floatsRoundTrip sc r \<longleftrightarrow>
     (case Temperature r of
        None \<Rightarrow> True | Some f \<Rightarrow> ParseFloat64 sc (FormatFloat64 sc f) = Some f)
     \<and> (case TopP r of
        None \<Rightarrow> True | Some f \<Rightarrow> ParseFloat64 sc (FormatFloat64 sc f) = Some f)
     \<and> (if isZero32 (PresencePenalty r) then True
         else ParseFloat32 sc (FormatFloat32 sc (PresencePenalty r)) = Some (PresencePenalty r))
     \<and> (if isZero32 (FrequencyPenalty r) then True
         else ParseFloat32 sc (FormatFloat32 sc (FrequencyPenalty r)) = Some (FrequencyPenalty r))"

section \<open>The transport operation\<close>

text \<open>
  \<^verbatim>\<open>c.post\<close> belongs to the client (another file): it is the parameter \<open>post\<close>, which
  gives the bytes and the error of the call, as Go's pair \<^verbatim>\<open>(b, err)\<close>. The result of an
  entry point is Go's pair of the response pointer and the error.
\<close>

datatype route = Completions

definition CreateCompletion ::
  "('c \<Rightarrow> route \<Rightarrow> 'm CompletionRequest \<Rightarrow> bytes \<times> error option) \<Rightarrow> strconv
     \<Rightarrow> 'm model_codec \<Rightarrow> ('o, 'u) collaborators \<Rightarrow> 'c \<Rightarrow> 'm CompletionRequest
     \<Rightarrow> ('m, 'o, 'u) CompletionResponse option \<times> error option" where
  "CreateCompletion post sc mc co ctx cr =
     (case post ctx Completions cr of
        (b, Some err) \<Rightarrow> (None, Some err)
      | (b, None) \<Rightarrow>
          (case Unmarshal (decCompletionResponse sc mc co) b (zeroCompletionResponse mc co) of
             Inl err \<Rightarrow> (None, Some err)
           | Inr resp \<Rightarrow> (Some resp, None)))"

definition CreateFineTunedCompletion ::
  "('c \<Rightarrow> route \<Rightarrow> 'f CompletionRequest \<Rightarrow> bytes \<times> error option) \<Rightarrow> strconv
     \<Rightarrow> 'f model_codec \<Rightarrow> ('o, 'u) collaborators \<Rightarrow> 'c \<Rightarrow> 'f CompletionRequest
     \<Rightarrow> ('f, 'o, 'u) CompletionResponse option \<times> error option" where
  "CreateFineTunedCompletion post sc mc co ctx cr =
     (case post ctx Completions cr of
        (b, Some err) \<Rightarrow> (None, Some err)
      | (b, None) \<Rightarrow>
          (case Unmarshal (decCompletionResponse sc mc co) b (zeroCompletionResponse mc co) of
             Inl err \<Rightarrow> (None, Some err)
           | Inr resp \<Rightarrow> (Some resp, None)))"

text \<open>
  Modelled from the spec: \<^verbatim>\<open>Client.post\<close>, whose file is not among the sources.
  Section 4.2: the operation serializes the request to a JSON request body and submits it
  via an HTTP POST; section 2: it returns an error if any step fails. \<open>send\<close> is the HTTP
  exchange.
\<close>

definition Client_post ::
  "('c \<Rightarrow> route \<Rightarrow> json \<Rightarrow> bytes \<times> error option) \<Rightarrow> strconv \<Rightarrow> 'm model_codec
     \<Rightarrow> 'c \<Rightarrow> route \<Rightarrow> 'm CompletionRequest \<Rightarrow> bytes \<times> error option" where
  "Client_post send sc mc ctx rt cr =
     (case MarshalRequest sc mc cr of
        Inl e \<Rightarrow> (Invalid, Some e)
      | Inr body \<Rightarrow> send ctx rt body)"

text \<open>The floats of a request that Marshal may have to write are all finite.\<close>

definition finiteFloats :: "'m CompletionRequest \<Rightarrow> bool" where
  "finiteFloats r \<longleftrightarrow>
     (case Temperature r of None \<Rightarrow> True | Some f \<Rightarrow> isFinite64 f)
     \<and> (case TopP r of None \<Rightarrow> True | Some f \<Rightarrow> isFinite64 f)
     \<and> isFinite32 (PresencePenalty r) \<and> isFinite32 (FrequencyPenalty r)"

text \<open>
  Two responses typed to different model identifiers agree up to the identifier when every
  other field is equal and the identifiers are related by \<open>R\<close>.
\<close>

definition sameUpToModel ::
  "('a \<Rightarrow> 'b \<Rightarrow> bool) \<Rightarrow> ('a, 'o, 'u) CompletionResponse \<Rightarrow> ('b, 'o, 'u) CompletionResponse
     \<Rightarrow> bool" where
  "sameUpToModel R x y \<longleftrightarrow>
     ID x = ID y \<and> Object x = Object y \<and> Created x = Created y
     \<and> R (RespModel x) (RespModel y) \<and> Choices x = Choices y \<and> Usage x = Usage y"

text \<open>
  The members of a body that are stored into the field Choices, and the order property the
  specification states for the decoded choices: their indices (nil entries have none) ascend.
\<close>

definition isChoicesKey :: "string \<times> json \<Rightarrow> bool" where
  "isChoicesKey kv \<longleftrightarrow> fieldFor responseFields (fst kv) = Some ''choices''"

fun indices :: "CompletionChoice option list \<Rightarrow> int list" where
  "indices [] = []"
| "indices (None # cs) = indices cs"
| "indices (Some c # cs) = sint (Index c) # indices cs"

definition ascendingIndex :: "CompletionChoice option list \<Rightarrow> bool" where
  "ascendingIndex cs = sorted (indices cs)"

section \<open>Instances for the examples\<close>

text \<open>
  The examples below need values for the parameters. The model identifier and the object
  tag are taken as the strings they have on the wire, the usage object as its members, and
  strconv as its table on the few floats the examples use (any other float or literal is
  outside the table).
\<close>

definition nameCodec :: "string model_codec" where
  "nameCodec =
     \<lparr>zeroModel = [],
      marshalModel = (\<lambda>m. Some (encString m)),
      unmarshalModel = (\<lambda>j old. case j of JNull \<Rightarrow> Some old | JString s \<Rightarrow> Some s | _ \<Rightarrow> None)\<rparr>"

text \<open>
  A second model identifier type for the examples: a stock model kept as its position in a
  table of names, 0 for a name the table does not have.
\<close>

definition tableIndex :: "string \<Rightarrow> nat" where
  "tableIndex s = (if s = ''text-davinci-003'' then 1 else if s = ''text-curie-001'' then 2 else 0)"

definition tableName :: "nat \<Rightarrow> string" where
  "tableName n = (if n = 1 then ''text-davinci-003'' else if n = 2 then ''text-curie-001'' else [])"

definition tableCodec :: "nat model_codec" where
  "tableCodec =
     \<lparr>zeroModel = 0,
      marshalModel = (\<lambda>n. Some (encString (tableName n))),
      unmarshalModel =
        (\<lambda>j old. case j of JNull \<Rightarrow> Some old | JString s \<Rightarrow> Some (tableIndex s) | _ \<Rightarrow> None)\<rparr>"

definition wireTypes :: "(string, (string \<times> json) list) collaborators" where
  "wireTypes =
     \<lparr>zeroObject = [],
      unmarshalObject = (\<lambda>j old. case j of JNull \<Rightarrow> Some old | JString s \<Rightarrow> Some s | _ \<Rightarrow> None),
      zeroUsage = [],
      unmarshalUsage = (\<lambda>j old. case j of JNull \<Rightarrow> Some old | JObject kvs \<Rightarrow> Some kvs | _ \<Rightarrow> None)\<rparr>"

definition formatTable32 :: "float32 \<Rightarrow> string" where
  "formatTable32 f =
     (if f = 0x3F000000 then ''0.5'' else if f = 0xBF000000 then ''-0.5''
      else if f = 0x40200000 then ''2.5'' else if f = 0xC0400000 then ''-3''
      else ''0'')"

definition parseTable32 :: "string \<Rightarrow> float32 option" where
  "parseTable32 l =
     (if l = ''0.5'' then Some 0x3F000000 else if l = ''-0.5'' then Some 0xBF000000
      else if l = ''2.5'' then Some 0x40200000 else if l = ''-3'' then Some 0xC0400000
      else if l = ''0'' then Some 0 else None)"

definition formatTable64 :: "float64 \<Rightarrow> string" where
  "formatTable64 f =
     (if f = 0x3FE0000000000000 then ''0.5'' else if f = 0x3FF0000000000000 then ''1''
      else ''0'')"

definition parseTable64 :: "string \<Rightarrow> float64 option" where
  "parseTable64 l =
     (if l = ''0.5'' then Some 0x3FE0000000000000 else if l = ''1'' then Some 0x3FF0000000000000
      else if l = ''0'' then Some 0 else None)"

definition strconvTable :: strconv where
  "strconvTable =
     \<lparr>FormatFloat32 = formatTable32, ParseFloat32 = parseTable32,
      FormatFloat64 = formatTable64, ParseFloat64 = parseTable64\<rparr>"

definition refusedPost :: "unit \<Rightarrow> route \<Rightarrow> 'm CompletionRequest \<Rightarrow> bytes \<times> error option" where
  "refusedPost ctx rt cr = (Invalid, Some (Other ''connection refused''))"

definition replyPost ::
  "bytes \<Rightarrow> unit \<Rightarrow> route \<Rightarrow> 'm CompletionRequest \<Rightarrow> bytes \<times> error option" where
  "replyPost b ctx rt cr = (b, None)"

text \<open>The response body of the specification's scenario (its usage object filled in).\<close>

definition hiBody :: json where
  "hiBody = JObject
     [(''id'', JString ''cmpl-1''), (''object'', JString ''text_completion''),
      (''created'', JNumber ''1600000000''), (''model'', JString ''text-davinci-003''),
      (''choices'', JArray [JObject [(''text'', JString ''Hi!''), (''index'', JNumber ''0''),
          (''finish_reason'', JString ''stop''), (''logprobs'', JNull)]]),
      (''usage'', JObject [(''total_tokens'', JNumber ''7'')])]"

text \<open>A body of the wrong shape: the identifier can be stored, the choices cannot.\<close>

definition wrongShapeBody :: json where
  "wrongShapeBody = JObject [(''id'', JString ''cmpl-1''), (''choices'', JNumber ''5'')]"

text \<open>A body whose two choices come with index 1 before index 0, and what it decodes to.\<close>

definition descendingBody :: json where
  "descendingBody = JObject
     [(''id'', JString ''cmpl-2''),
      (''choices'', JArray
         [JObject [(''text'', JString ''b''), (''index'', JNumber ''1'')],
          JObject [(''text'', JString ''a''), (''index'', JNumber ''0'')]])]"

definition descendingResponse :: "(string, string, (string \<times> json) list) CompletionResponse" where
  "descendingResponse =
     \<lparr>ID = ''cmpl-2'', Object = [], Created = 0, RespModel = [],
      Choices = [Some \<lparr>Text = ''b'', Index = 1, FinishReason = [], ChoiceLogProbs = None\<rparr>,
                 Some \<lparr>Text = ''a'', Index = 0, FinishReason = [], ChoiceLogProbs = None\<rparr>],
      Usage = None\<rparr>"


text \<open>
  The request of the specification's scenario, for a model identifier \<open>m\<close>, and a request that
  sets temperature, top-p and the log-probability count to zero.
\<close>

definition sayHi :: "'m model_codec \<Rightarrow> 'm \<Rightarrow> 'm CompletionRequest" where
  "sayHi mc m = (zeroCompletionRequest mc)\<lparr>Model := m, Prompt := ''Say hi'', MaxTokens := 5\<rparr>"


text \<open>
  An HTTP exchange that answers with the scenario's body, a request whose temperature is
  NaN, and a request outside every documented range (log-probability count 9, five stop
  sequences, penalties 2.5 and -3, best-of below n, a logit bias of 101) with its body.
\<close>

definition okSend :: "unit \<Rightarrow> route \<Rightarrow> json \<Rightarrow> bytes \<times> error option" where
  "okSend ctx rt body = (Encodes hiBody, None)"

definition nanTemperature :: "string CompletionRequest" where
  "nanTemperature =
     (zeroCompletionRequest nameCodec)
       \<lparr>Model := ''text-davinci-003'', Temperature := Some 0x7FF8000000000001\<rparr>"

definition outOfRange :: "string CompletionRequest" where
  "outOfRange =
     (zeroCompletionRequest nameCodec)
       \<lparr>Model := ''text-davinci-003'', N := 3, LogProbs := Some 9,
        Stop := [''a'', ''b'', ''c'', ''d'', ''e''], PresencePenalty := 0x40200000,
        FrequencyPenalty := 0xC0400000, BestOf := 1, LogitBias := [(''50256'', 101)]\<rparr>"

definition outOfRangeBody :: json where
  "outOfRangeBody = JObject
     [(''model'', JString ''text-davinci-003''), (''n'', JNumber ''3''), (''logprobs'', JNumber ''9''),
      (''stop'', JArray [JString ''a'', JString ''b'', JString ''c'', JString ''d'', JString ''e'']),
      (''presence_penalty'', JNumber ''2.5''), (''frequency_penalty'', JNumber ''-3''),
      (''best_of'', JNumber ''1''), (''logit_bias'', JObject [(''50256'', JNumber ''101'')])]"

text \<open>
  A request with every field set (the frequency penalty to -0) and its body, and a request
  whose prompt is the single byte FF, which is not valid UTF-8, with its body.
\<close>

definition everyField :: "string CompletionRequest" where
  "everyField =
     \<lparr>Model = ''text-davinci-003'', Prompt = ''Say hi'', Suffix = ''.'', MaxTokens = 5,
      Temperature = Some 0, TopP = Some 0x3FE0000000000000, N = 2, Stream = True,
      LogProbs = Some 0, Echo = True, Stop = [''\<newline>'', ''END''],
      PresencePenalty = 0x3F000000, FrequencyPenalty = 0x80000000, BestOf = 3,
      LogitBias = [(''11'', 5), (''50256'', -100)], User = ''u-1''\<rparr>"

definition badPrompt :: "string CompletionRequest" where
  "badPrompt = (zeroCompletionRequest nameCodec)\<lparr>Model := ''text-davinci-003'', Prompt := [CHR 0xFF]\<rparr>"

definition badPromptBody :: json where
  "badPromptBody = JObject
     [(''model'', JString ''text-davinci-003''),
      (''prompt'', JString [CHR 0xEF, CHR 0xBF, CHR 0xBD])]"

definition everyFieldBody :: json where
  "everyFieldBody = JObject
     [(''model'', JString ''text-davinci-003''), (''prompt'', JString ''Say hi''),
      (''suffix'', JString ''.''), (''max_tokens'', JNumber ''5''), (''temperature'', JNumber ''0''),
      (''top_p'', JNumber ''0.5''), (''n'', JNumber ''2''), (''stream'', JBool True),
      (''logprobs'', JNumber ''0''), (''echo'', JBool True),
      (''stop'', JArray [JString ''\<newline>'', JString ''END'']),
      (''presence_penalty'', JNumber ''0.5''), (''best_of'', JNumber ''3''),
      (''logit_bias'', JObject [(''11'', JNumber ''5''), (''50256'', JNumber ''-100'')]),
      (''user'', JString ''u-1'')]"

section \<open>Evaluation of the decoders\<close>

lemmas dec_defs = decString_def decBool_def decInt_def decUint64_def decFloat32_def decFloat64_def
  decPtr_def decSlice_def decMap_def decStruct_def fieldFor_def ofOption_def
  ParseInt_def ParseUint_def parseDigits_def isDigit_def digitVal_def

lemmas resp_defs = Unmarshal_def decCompletionResponse_def responseFields_def storeResponseField_def
  zeroCompletionResponse_def decCompletionChoice_def choiceFields_def storeChoiceField_def
  zeroCompletionChoice_def decLogprobResult_def logprobFields_def storeLogprobField_def
  zeroLogprobResult_def

lemma Unmarshal_hiBody:
  "Unmarshal (decCompletionResponse strconvTable nameCodec wireTypes) (Encodes hiBody)
       (zeroCompletionResponse nameCodec wireTypes) =
     Inr \<lparr>ID = ''cmpl-1'', Object = ''text_completion'', Created = 1600000000,
          RespModel = ''text-davinci-003'',
          Choices = [Some \<lparr>Text = ''Hi!'', Index = 0, FinishReason = ''stop'', ChoiceLogProbs = None\<rparr>],
          Usage = Some [(''total_tokens'', JNumber ''7'')]\<rparr>"
  by (simp add: hiBody_def resp_defs dec_defs nameCodec_def wireTypes_def)

lemma Unmarshal_wrongShapeBody:
  "Unmarshal (decCompletionResponse strconvTable nameCodec wireTypes) (Encodes wrongShapeBody)
       (zeroCompletionResponse nameCodec wireTypes) = Inl UnmarshalTypeError"
  by (simp add: wrongShapeBody_def resp_defs dec_defs nameCodec_def wireTypes_def)

lemma digits_small: "n < 10 \<Longrightarrow> digits n = [digit n]"
  by (simp add: digits.simps)

lemma digits_large: "\<not> n < 10 \<Longrightarrow> digits n = digits (n div 10) @ [digit (n mod 10)]"
  by (subst digits.simps) simp

lemmas enc_defs = encString_def encBool_def encInt_def encFloat32_def encFloat64_def
  encStrings_def encIntMap_def encModel_def always_def omitempty_def FormatInt_def
  digits_small digits_large digit_def inRange_def isZero32_def

section \<open>Errors of the transport operation\<close>

text \<open>
  Claim C3. When the POST step fails, whatever the failure (the collaborator reports a
  network failure and a non-success status alike as its error), CreateCompletion and
  CreateFineTunedCompletion return that same error and a nil response.
\<close>

theorem post_error_returned_unchanged:
  assumes "post ctx Completions cr = (b, Some err)"
    and "post' ctx' Completions cr' = (b', Some err')"
  shows "CreateCompletion post sc mc co ctx cr = (None, Some err)
       \<and> CreateFineTunedCompletion post' sc' mc' co' ctx' cr' = (None, Some err')"
  using assms by (simp add: CreateCompletion_def CreateFineTunedCompletion_def)

theorem post_error_returned_unchanged_witness:
  "refusedPost () Completions (zeroCompletionRequest nameCodec)
     = (Invalid, Some (Other ''connection refused''))
   \<and> CreateCompletion refusedPost strconvTable nameCodec wireTypes ()
        (zeroCompletionRequest nameCodec) = (None, Some (Other ''connection refused''))
   \<and> CreateFineTunedCompletion refusedPost strconvTable nameCodec wireTypes ()
        (zeroCompletionRequest nameCodec) = (None, Some (Other ''connection refused''))"
proof -
  have h: "refusedPost () Completions (zeroCompletionRequest nameCodec)
             = (Invalid, Some (Other ''connection refused''))"
    by (simp add: refusedPost_def)
  show ?thesis
    using h post_error_returned_unchanged
      [where post = refusedPost and ctx = "()" and cr = "zeroCompletionRequest nameCodec"
         and post' = refusedPost and ctx' = "()" and cr' = "zeroCompletionRequest nameCodec"
         and sc = strconvTable and mc = nameCodec and co = wireTypes
         and sc' = strconvTable and mc' = nameCodec and co' = wireTypes]
    by simp
qed

text \<open>
  Claim C4. When the bytes returned by the POST cannot be unmarshalled into the response,
  the entry point returns the unmarshalling error and a nil response: whatever had been
  stored into the response before the failure is not returned. For bytes that are not
  valid JSON the error is the syntax error.
\<close>

theorem undecodable_body_no_response:
  assumes "post ctx Completions cr = (b, None)"
    and "Unmarshal (decCompletionResponse sc mc co) b (zeroCompletionResponse mc co) = Inl e"
  shows "CreateCompletion post sc mc co ctx cr = (None, Some e)
       \<and> CreateFineTunedCompletion post sc mc co ctx cr = (None, Some e)
       \<and> (b = Invalid \<longrightarrow> e = SyntaxError)"
  using assms by (auto simp: CreateCompletion_def CreateFineTunedCompletion_def Unmarshal_def)

theorem undecodable_body_no_response_witness:
  "CreateCompletion (replyPost Invalid) strconvTable nameCodec wireTypes ()
       (zeroCompletionRequest nameCodec) = (None, Some SyntaxError)
   \<and> CreateCompletion (replyPost (Encodes wrongShapeBody)) strconvTable nameCodec wireTypes ()
       (zeroCompletionRequest nameCodec) = (None, Some UnmarshalTypeError)"
proof -
  have p: "replyPost b () Completions (zeroCompletionRequest nameCodec) = (b, None)" for b
    by (simp add: replyPost_def)
  have i: "Unmarshal (decCompletionResponse strconvTable nameCodec wireTypes) Invalid
             (zeroCompletionResponse nameCodec wireTypes) = Inl SyntaxError"
    by (simp add: Unmarshal_def)
  show ?thesis
    using undecodable_body_no_response
        [where post = "replyPost Invalid" and ctx = "()"
           and cr = "zeroCompletionRequest nameCodec", OF p i]
      undecodable_body_no_response
        [where post = "replyPost (Encodes wrongShapeBody)" and ctx = "()"
           and cr = "zeroCompletionRequest nameCodec", OF p Unmarshal_wrongShapeBody]
    by simp
qed

section \<open>The successful call\<close>

text \<open>
  With the six members of the wire contract, each field of the response holds what its
  member decodes to.
\<close>

lemma response_fields_populated:
  assumes "unmarshalObject co ob (zeroObject co) = Some ob'"
    and "ParseUint c = Some t"
    and "unmarshalModel mc m (zeroModel mc) = Some m'"
    and "decSlice (decPtr (decCompletionChoice sc) zeroCompletionChoice) None cs [] = Inr cs'"
    and "decPtr (\<lambda>j u. ofOption (unmarshalUsage co j u)) (zeroUsage co) u None = Inr u'"
  shows "Unmarshal (decCompletionResponse sc mc co)
           (Encodes (JObject [(''id'', JString i), (''object'', ob), (''created'', JNumber c),
              (''model'', m), (''choices'', cs), (''usage'', u)]))
           (zeroCompletionResponse mc co)
         = Inr \<lparr>ID = i, Object = ob', Created = word_of_nat t, RespModel = m', Choices = cs',
                Usage = u'\<rparr>"
  using assms
  by (simp add: Unmarshal_def decCompletionResponse_def responseFields_def storeResponseField_def
      zeroCompletionResponse_def decStruct_def fieldFor_def ofOption_def decString_def decUint64_def)



section \<open>One operation behind both entry points\<close>

lemma rel_sum_store:
  assumes "rel_sum (=) P a b" and "\<And>v w. P v w \<Longrightarrow> Q (f v) (g w)"
  shows "rel_sum (=) Q (case a of Inl e \<Rightarrow> Inl e | Inr v \<Rightarrow> Inr (f v))
           (case b of Inl e \<Rightarrow> Inl e | Inr w \<Rightarrow> Inr (g w))"
  using assms by (cases a; cases b) simp_all

lemma rel_sum_ofOption:
  "rel_option R a b \<Longrightarrow> rel_sum (=) R (ofOption a) (ofOption b)"
  by (cases a; cases b) (simp_all add: ofOption_def)

lemma rel_sum_eq_refl: "rel_sum (=) (=) a a"
  by (cases a) simp_all

lemma storeResponseField_related:
  assumes xy: "sameUpToModel R x y"
    and dec: "\<And>j a b. R a b \<Longrightarrow> rel_option R (unmarshalModel mc j a) (unmarshalModel mc' j b)"
  shows "rel_sum (=) (sameUpToModel R) (storeResponseField sc mc co n j x) (storeResponseField sc mc' co n j y)"
proof -
  have m: "rel_sum (=) R (ofOption (unmarshalModel mc j (RespModel x)))
             (ofOption (unmarshalModel mc' j (RespModel y)))"
    using xy dec by (intro rel_sum_ofOption) (simp add: sameUpToModel_def)
  have eqs: "ID x = ID y" "Object x = Object y" "Created x = Created y" "Choices x = Choices y"
    "Usage x = Usage y"
    using xy by (simp_all add: sameUpToModel_def)
  have same: "\<And>(d :: error + 'z) f g. (\<And>v. sameUpToModel R (f v) (g v)) \<Longrightarrow>
      rel_sum (=) (sameUpToModel R) (case d of Inl e \<Rightarrow> Inl e | Inr v \<Rightarrow> Inr (f v))
        (case d of Inl e \<Rightarrow> Inl e | Inr v \<Rightarrow> Inr (g v))"
    by (simp split: sum.splits)
  have upd: "\<And>f. sameUpToModel R (x\<lparr>ID := f\<rparr>) (y\<lparr>ID := f\<rparr>)"
    "\<And>f. sameUpToModel R (x\<lparr>Object := f\<rparr>) (y\<lparr>Object := f\<rparr>)"
    "\<And>f. sameUpToModel R (x\<lparr>Created := f\<rparr>) (y\<lparr>Created := f\<rparr>)"
    "\<And>f. sameUpToModel R (x\<lparr>Choices := f\<rparr>) (y\<lparr>Choices := f\<rparr>)"
    "\<And>f. sameUpToModel R (x\<lparr>Usage := f\<rparr>) (y\<lparr>Usage := f\<rparr>)"
    "\<And>v w. R v w \<Longrightarrow> sameUpToModel R (x\<lparr>RespModel := v\<rparr>) (y\<lparr>RespModel := w\<rparr>)"
    using xy by (simp_all add: sameUpToModel_def)
  have mdl: "rel_sum (=) (sameUpToModel R)
      (case ofOption (unmarshalModel mc j (RespModel x)) of Inl e \<Rightarrow> Inl e | Inr v \<Rightarrow> Inr (x\<lparr>RespModel := v\<rparr>))
      (case ofOption (unmarshalModel mc' j (RespModel y)) of Inl e \<Rightarrow> Inl e | Inr v \<Rightarrow> Inr (y\<lparr>RespModel := v\<rparr>))"
    using m upd(6) by (rule rel_sum_store)
  show ?thesis
    unfolding storeResponseField_def eqs
    by (simp add: same upd mdl)
qed




lemma decFields_response_related:
  assumes "\<And>j a b. R a b \<Longrightarrow> rel_option R (unmarshalModel mc j a) (unmarshalModel mc' j b)"
  shows "sameUpToModel R x y \<Longrightarrow>
     rel_sum (=) (sameUpToModel R)
       (decFields responseFields (storeResponseField sc mc co) kvs x)
       (decFields responseFields (storeResponseField sc mc' co) kvs y)"
proof (induction kvs arbitrary: x y)
  case Nil
  then show ?case by simp
next
  case (Cons kv kvs)
  obtain k j where kv: "kv = (k, j)" by (cases kv)
  show ?case
  proof (cases "fieldFor responseFields k")
    case None
    then show ?thesis using Cons kv by simp
  next
    case (Some n)
    have st: "rel_sum (=) (sameUpToModel R) (storeResponseField sc mc co n j x)
                (storeResponseField sc mc' co n j y)"
      using Cons.prems assms by (rule storeResponseField_related)
    show ?thesis
    proof (cases "storeResponseField sc mc co n j x")
      case (Inl e)
      then show ?thesis using st Some kv
        by (cases "storeResponseField sc mc' co n j y") simp_all
    next
      case (Inr x')
      then obtain y' where y': "storeResponseField sc mc' co n j y = Inr y'"
        and rel: "sameUpToModel R x' y'"
        using st by (cases "storeResponseField sc mc' co n j y") simp_all
      show ?thesis using Some kv Inr y' Cons.IH [OF rel] by simp
    qed
  qed
qed

text \<open>
  Claim C9. CreateCompletion and CreateFineTunedCompletion are one operation at two model
  identifier types: given the same result of the POST, both return its error, or unmarshal
  its bytes, and their results are equal up to the model identifier (the decoders of the
  two identifier types being related).
\<close>

theorem entry_points_same_operation:
  assumes "post ctx Completions cr = p" and "post' ctx' Completions cr' = p"
    and "R (zeroModel mc) (zeroModel mc')"
    and "\<And>j a b. R a b \<Longrightarrow> rel_option R (unmarshalModel mc j a) (unmarshalModel mc' j b)"
  shows "rel_prod (rel_option (sameUpToModel R)) (=)
           (CreateCompletion post sc mc co ctx cr)
           (CreateFineTunedCompletion post' sc mc' co ctx' cr')"
proof (cases p)
  case (Pair b oe)
  show ?thesis
  proof (cases oe)
    case (Some e)
    then show ?thesis using assms(1,2) Pair
      by (simp add: CreateCompletion_def CreateFineTunedCompletion_def)
  next
    case None
    have z: "sameUpToModel R (zeroCompletionResponse mc co) (zeroCompletionResponse mc' co)"
      using assms(3) by (simp add: sameUpToModel_def zeroCompletionResponse_def)
    have u: "rel_sum (=) (sameUpToModel R)
            (Unmarshal (decCompletionResponse sc mc co) b (zeroCompletionResponse mc co))
            (Unmarshal (decCompletionResponse sc mc' co) b (zeroCompletionResponse mc' co))"
    proof (cases b)
      case Invalid
      then show ?thesis by (simp add: Unmarshal_def)
    next
      case (Encodes j)
      show ?thesis
        using z decFields_response_related [OF assms(4) z] Encodes
        by (cases j) (simp_all add: Unmarshal_def decCompletionResponse_def decStruct_def)
    qed
    show ?thesis
    proof (cases "Unmarshal (decCompletionResponse sc mc co) b (zeroCompletionResponse mc co)")
      case (Inl e)
      then show ?thesis using u assms(1,2) Pair None
        by (cases "Unmarshal (decCompletionResponse sc mc' co) b (zeroCompletionResponse mc' co)")
           (simp_all add: CreateCompletion_def CreateFineTunedCompletion_def)
    next
      case (Inr r)
      then show ?thesis using u assms(1,2) Pair None
        by (cases "Unmarshal (decCompletionResponse sc mc' co) b (zeroCompletionResponse mc' co)")
           (simp_all add: CreateCompletion_def CreateFineTunedCompletion_def)
    qed
  qed
qed

theorem entry_points_same_operation_witness:
  "CreateCompletion (replyPost (Encodes hiBody)) strconvTable tableCodec wireTypes ()
       (zeroCompletionRequest tableCodec) =
     (Some \<lparr>ID = ''cmpl-1'', Object = ''text_completion'', Created = 1600000000,
          RespModel = 1,
          Choices = [Some \<lparr>Text = ''Hi!'', Index = 0, FinishReason = ''stop'', ChoiceLogProbs = None\<rparr>],
          Usage = Some [(''total_tokens'', JNumber ''7'')]\<rparr>, None)
   \<and> rel_prod (rel_option (sameUpToModel (\<lambda>n s. n = tableIndex s))) (=)
     (CreateCompletion (replyPost (Encodes hiBody)) strconvTable tableCodec wireTypes ()
        (zeroCompletionRequest tableCodec))
     (CreateFineTunedCompletion (replyPost (Encodes hiBody)) strconvTable nameCodec wireTypes ()
        (zeroCompletionRequest nameCodec))"
proof -
  have r: "rel_option (\<lambda>n s. n = tableIndex s) (unmarshalModel tableCodec j a)
             (unmarshalModel nameCodec j b)"
    if "a = tableIndex b" for j a b
    using that by (cases j) (simp_all add: tableCodec_def nameCodec_def)
  have z: "zeroModel tableCodec = tableIndex (zeroModel nameCodec)"
    by (simp add: tableCodec_def nameCodec_def tableIndex_def)
  have e: "CreateCompletion (replyPost (Encodes hiBody)) strconvTable tableCodec wireTypes ()
       (zeroCompletionRequest tableCodec) =
     (Some \<lparr>ID = ''cmpl-1'', Object = ''text_completion'', Created = 1600000000,
          RespModel = 1,
          Choices = [Some \<lparr>Text = ''Hi!'', Index = 0, FinishReason = ''stop'', ChoiceLogProbs = None\<rparr>],
          Usage = Some [(''total_tokens'', JNumber ''7'')]\<rparr>, None)"
    by (simp add: CreateCompletion_def replyPost_def hiBody_def resp_defs dec_defs tableCodec_def
        wireTypes_def tableIndex_def)
  show ?thesis
    using e entry_points_same_operation
          [where post = "replyPost (Encodes hiBody)" and ctx = "()"
             and cr = "zeroCompletionRequest tableCodec"
             and post' = "replyPost (Encodes hiBody)" and ctx' = "()"
             and cr' = "zeroCompletionRequest nameCodec"
             and R = "\<lambda>n s. n = tableIndex s" and mc = tableCodec and mc' = nameCodec
             and sc = strconvTable and co = wireTypes
             and p = "(Encodes hiBody, None)", OF _ _ z r]
    by (simp add: replyPost_def)
qed

section \<open>The decoded choices\<close>

lemma decElems_length: "decElems dec zero js old = Inr xs \<Longrightarrow> length xs = length js"
  by (induction js arbitrary: old xs) (auto split: sum.splits)

lemma decElems_fresh:
  "decElems dec zero js [] = Inr xs \<Longrightarrow> list_all2 (\<lambda>j x. dec j zero = Inr x) js xs"
  by (induction js arbitrary: xs) (auto split: sum.splits)

lemma fieldFor_in_names: "fieldFor names k = Some n \<Longrightarrow> n \<in> set names"
  by (auto simp: fieldFor_def find_Some_iff split: if_splits)

lemma store_other_field_keeps_Choices:
  assumes "storeResponseField sc mc co n j r = Inr r'" and "n \<noteq> ''choices''"
  shows "Choices r' = Choices r"
  using assms by (auto simp: storeResponseField_def split: if_splits sum.splits)

lemma decFields_Choices:
  assumes "decFields responseFields (storeResponseField sc mc co) kvs r = Inr r'"
  shows "(filter isChoicesKey kvs = [] \<longrightarrow> Choices r' = Choices r)
       \<and> (\<forall>k js. filter isChoicesKey kvs = [(k, JArray js)] \<longrightarrow>
            decElems (decPtr (decCompletionChoice sc) zeroCompletionChoice) None js (Choices r)
              = Inr (Choices r'))"
  using assms
proof (induction kvs arbitrary: r)
  case Nil
  then show ?case by simp
next
  case (Cons kv kvs)
  obtain k j where kv: "kv = (k, j)" by (cases kv)
  show ?case
  proof (cases "fieldFor responseFields k")
    case None
    then show ?thesis using Cons kv by (simp add: isChoicesKey_def)
  next
    case (Some n)
    then obtain r1 where r1: "storeResponseField sc mc co n j r = Inr r1"
      and rest: "decFields responseFields (storeResponseField sc mc co) kvs r1 = Inr r'"
      using Cons.prems kv by (auto split: sum.splits)
    note IH = Cons.IH [OF rest]
    show ?thesis
    proof (cases "n = ''choices''")
      case False
      have "Choices r1 = Choices r" using r1 False by (rule store_other_field_keeps_Choices)
      then show ?thesis using IH Some False kv by (simp add: isChoicesKey_def)
    next
      case True
      have c: "decSlice (decPtr (decCompletionChoice sc) zeroCompletionChoice) None j (Choices r)
                 = Inr (Choices r1)"
        using r1 True by (auto simp: storeResponseField_def split: sum.splits)
      show ?thesis using IH Some True kv c
        by (auto simp: isChoicesKey_def decSlice_def)
    qed
  qed
qed

text \<open>
  Claim C5, as the code has it. When a body with one \<^verbatim>\<open>choices\<close> member, an array of
  k entries, unmarshals, the response has exactly k choices and the i-th choice is what the
  i-th entry of the array decodes to: the order is the order of the array. Nothing sorts by
  index, so the indices ascend only if they do in the body.
\<close>

theorem choices_in_source_order:
  assumes "Unmarshal (decCompletionResponse sc mc co) (Encodes (JObject kvs))
             (zeroCompletionResponse mc co) = Inr resp"
    and "filter isChoicesKey kvs = [(k, JArray entries)]"
  shows "length (Choices resp) = length entries
       \<and> list_all2 (\<lambda>entry c. decPtr (decCompletionChoice sc) zeroCompletionChoice entry None = Inr c)
            entries (Choices resp)"
proof -
  have d: "decFields responseFields (storeResponseField sc mc co) kvs (zeroCompletionResponse mc co)
             = Inr resp"
    using assms(1) by (simp add: Unmarshal_def decCompletionResponse_def decStruct_def)
  have z: "Choices (zeroCompletionResponse mc co) = []"
    by (simp add: zeroCompletionResponse_def)
  have e: "decElems (decPtr (decCompletionChoice sc) zeroCompletionChoice) None entries []
             = Inr (Choices resp)"
    using decFields_Choices [OF d] assms(2) z by simp
  show ?thesis
    using decElems_length [OF e] decElems_fresh [OF e] by simp
qed

lemma Unmarshal_descendingBody:
  "Unmarshal (decCompletionResponse strconvTable nameCodec wireTypes) (Encodes descendingBody)
     (zeroCompletionResponse nameCodec wireTypes) = Inr descendingResponse"
  by (simp add: descendingBody_def descendingResponse_def resp_defs dec_defs nameCodec_def
      wireTypes_def)

theorem choices_in_source_order_witness:
  "length (Choices descendingResponse) = 2
   \<and> list_all2 (\<lambda>entry c. decPtr (decCompletionChoice strconvTable) zeroCompletionChoice entry None = Inr c)
        [JObject [(''text'', JString ''b''), (''index'', JNumber ''1'')],
         JObject [(''text'', JString ''a''), (''index'', JNumber ''0'')]]
        (Choices descendingResponse)"
proof -
  have f: "filter isChoicesKey
             [(''id'', JString ''cmpl-2''),
              (''choices'', JArray
                 [JObject [(''text'', JString ''b''), (''index'', JNumber ''1'')],
                  JObject [(''text'', JString ''a''), (''index'', JNumber ''0'')]])]
           = [(''choices'', JArray
                 [JObject [(''text'', JString ''b''), (''index'', JNumber ''1'')],
                  JObject [(''text'', JString ''a''), (''index'', JNumber ''0'')]])]"
    by (simp add: isChoicesKey_def fieldFor_def responseFields_def)
  show ?thesis
    using choices_in_source_order [OF Unmarshal_descendingBody [unfolded descendingBody_def] f]
    by simp
qed

text \<open>
  The claim as stated asks for ascending indices for every body: a body that lists index 1
  before index 0 unmarshals to two choices in that order.
\<close>

theorem choices_not_ascending_counterexample:
  "Unmarshal (decCompletionResponse strconvTable nameCodec wireTypes) (Encodes descendingBody)
     (zeroCompletionResponse nameCodec wireTypes) = Inr descendingResponse
   \<and> length (Choices descendingResponse) = 2
   \<and> \<not> ascendingIndex (Choices descendingResponse)"
  by (simp add: Unmarshal_descendingBody) (simp add: descendingResponse_def ascendingIndex_def)

section \<open>LogprobResult\<close>

lemma decElems_strings: "decElems decString [] (map JString xs) old = Inr xs"
  by (induction xs arbitrary: old) (simp_all add: decString_def)



section \<open>The keys of a serialized request\<close>










text \<open>
  Claim C8. The request with model text-davinci-003, prompt "Say hi" and max_tokens 5, every
  other field unset, serializes to an object with exactly the keys \<^verbatim>\<open>model\<close>,
  \<^verbatim>\<open>prompt\<close> and \<^verbatim>\<open>max_tokens\<close>, for any model identifier written as that name.
\<close>

theorem say_hi_body_keys:
  assumes "marshalModel mc m = Some (JString ''text-davinci-003'')"
  shows "MarshalRequest sc mc (sayHi mc m) =
           Inr (JObject [(''model'', JString ''text-davinci-003''), (''prompt'', JString ''Say hi''),
                         (''max_tokens'', JNumber ''5'')])"
  using assms
  by (simp add: MarshalRequest_def sayHi_def zeroCompletionRequest_def enc_defs)

theorem say_hi_body_keys_witness:
  "MarshalRequest strconvTable nameCodec (sayHi nameCodec ''text-davinci-003'') =
           Inr (JObject [(''model'', JString ''text-davinci-003''), (''prompt'', JString ''Say hi''),
                         (''max_tokens'', JNumber ''5'')])"
proof -
  have "marshalModel nameCodec ''text-davinci-003'' = Some (JString ''text-davinci-003'')"
    by (simp add: nameCodec_def enc_defs)
  then show ?thesis by (rule say_hi_body_keys)
qed

section \<open>No validation of field values\<close>

lemma members_all_Inr:
  "list_all (\<lambda>f. \<not> isl f) fs \<Longrightarrow> members fs = Inr (concat (map projr fs))"
  by (induction fs) (auto split: sum.splits)

lemma not_isl_always: "\<not> isl v \<Longrightarrow> \<not> isl (always k v)"
  by (cases v) (simp_all add: always_def)

lemma not_isl_omitempty: "e \<or> \<not> isl v \<Longrightarrow> \<not> isl (omitempty k e v)"
  by (auto simp: omitempty_def not_isl_always)

lemma not_isl_encFloat64: "isFinite64 f \<Longrightarrow> \<not> isl (encFloat64 sc f)"
  by (simp add: encFloat64_def)

lemma not_isl_encFloat32: "isFinite32 f \<Longrightarrow> \<not> isl (encFloat32 sc f)"
  by (simp add: encFloat32_def)

lemma MarshalRequest_members:
  assumes "finiteFloats r" and "marshalModel mc (Model r) = Some j"
  shows "MarshalRequest sc mc r = Inr (JObject (concat (map projr
        [always ''model'' (encModel mc (Model r)),
         omitempty ''prompt'' (Prompt r = []) (Inr (encString (Prompt r))),
         omitempty ''suffix'' (Suffix r = []) (Inr (encString (Suffix r))),
         omitempty ''max_tokens'' (MaxTokens r = 0) (Inr (encInt (MaxTokens r))),
         omitempty ''temperature'' (Temperature r = None)
           (case Temperature r of None \<Rightarrow> Inr JNull | Some f \<Rightarrow> encFloat64 sc f),
         omitempty ''top_p'' (TopP r = None)
           (case TopP r of None \<Rightarrow> Inr JNull | Some f \<Rightarrow> encFloat64 sc f),
         omitempty ''n'' (N r = 0) (Inr (encInt (N r))),
         omitempty ''stream'' (\<not> Stream r) (Inr (encBool (Stream r))),
         omitempty ''logprobs'' (LogProbs r = None)
           (case LogProbs r of None \<Rightarrow> Inr JNull | Some i \<Rightarrow> Inr (encInt i)),
         omitempty ''echo'' (\<not> Echo r) (Inr (encBool (Echo r))),
         omitempty ''stop'' (Stop r = []) (Inr (encStrings (Stop r))),
         omitempty ''presence_penalty'' (isZero32 (PresencePenalty r))
           (encFloat32 sc (PresencePenalty r)),
         omitempty ''frequency_penalty'' (isZero32 (FrequencyPenalty r))
           (encFloat32 sc (FrequencyPenalty r)),
         omitempty ''best_of'' (BestOf r = 0) (Inr (encInt (BestOf r))),
         omitempty ''logit_bias'' (LogitBias r = []) (Inr (encIntMap (LogitBias r))),
         omitempty ''user'' (User r = []) (Inr (encString (User r)))])))"
proof -
  have t: "\<not> isl (case Temperature r of None \<Rightarrow> Inr JNull | Some f \<Rightarrow> encFloat64 sc f)"
    using assms(1) by (cases "Temperature r") (simp_all add: finiteFloats_def not_isl_encFloat64)
  have p: "\<not> isl (case TopP r of None \<Rightarrow> Inr JNull | Some f \<Rightarrow> encFloat64 sc f)"
    using assms(1) by (cases "TopP r") (simp_all add: finiteFloats_def not_isl_encFloat64)
  have l: "\<not> isl ((case LogProbs r of None \<Rightarrow> Inr JNull | Some i \<Rightarrow> Inr (encInt i)) :: error + json)"
    by (cases "LogProbs r") simp_all
  have f: "\<not> isl (encFloat32 sc (PresencePenalty r))" "\<not> isl (encFloat32 sc (FrequencyPenalty r))"
    using assms(1) by (simp_all add: finiteFloats_def not_isl_encFloat32)
  have m: "\<not> isl (encModel mc (Model r))"
    using assms(2) by (simp add: encModel_def)
  show ?thesis
    unfolding MarshalRequest_def
    by (subst members_all_Inr) (simp_all add: not_isl_always not_isl_omitempty t p l f m)
qed

text \<open>
  Claim C10, as the code has it. No field is checked against its documented range. For every
  request whose floats are finite (temperature and top-p when set, the two penalties) and
  whose model identifier can be written, serialization succeeds, the body is handed to the
  HTTP exchange as it is, and the entry point behaves as on that exchange: an error can only
  come from the exchange or from the reply.
\<close>

theorem serialization_needs_finite_floats_only:
  assumes "finiteFloats cr" and "marshalModel mc (Model cr) = Some j"
  shows "\<exists>body. MarshalRequest sc mc cr = Inr body
           \<and> Client_post send sc mc ctx Completions cr = send ctx Completions body
           \<and> CreateCompletion (Client_post send sc mc) sc mc co ctx cr
               = CreateCompletion (\<lambda>c rt r. send c rt body) sc mc co ctx cr"
proof -
  obtain body where b: "MarshalRequest sc mc cr = Inr body"
    using MarshalRequest_members [OF assms] by blast
  have "Client_post send sc mc ctx Completions cr = send ctx Completions body"
    using b by (simp add: Client_post_def)
  then show ?thesis
    using b by (auto simp: CreateCompletion_def)
qed

lemma Marshal_outOfRange:
  "MarshalRequest strconvTable nameCodec outOfRange = Inr outOfRangeBody"
  by (simp add: MarshalRequest_def outOfRange_def outOfRangeBody_def zeroCompletionRequest_def
      enc_defs nameCodec_def strconvTable_def formatTable32_def isFinite32_def)

theorem serialization_needs_finite_floats_only_witness:
  "MarshalRequest strconvTable nameCodec outOfRange = Inr outOfRangeBody
   \<and> Client_post okSend strconvTable nameCodec () Completions outOfRange
       = okSend () Completions outOfRangeBody
   \<and> CreateCompletion (Client_post okSend strconvTable nameCodec) strconvTable nameCodec wireTypes ()
        outOfRange
       = (Some \<lparr>ID = ''cmpl-1'', Object = ''text_completion'', Created = 1600000000,
          RespModel = ''text-davinci-003'',
          Choices = [Some \<lparr>Text = ''Hi!'', Index = 0, FinishReason = ''stop'', ChoiceLogProbs = None\<rparr>],
          Usage = Some [(''total_tokens'', JNumber ''7'')]\<rparr>, None)"
proof -
  have f: "finiteFloats outOfRange"
    by (simp add: finiteFloats_def outOfRange_def zeroCompletionRequest_def isFinite32_def)
  have m: "marshalModel nameCodec (Model outOfRange) = Some (JString ''text-davinci-003'')"
    by (simp add: outOfRange_def zeroCompletionRequest_def nameCodec_def enc_defs)
  have c: "CreateCompletion (\<lambda>c rt r. okSend () rt outOfRangeBody) strconvTable nameCodec wireTypes ()
             outOfRange
       = (Some \<lparr>ID = ''cmpl-1'', Object = ''text_completion'', Created = 1600000000,
          RespModel = ''text-davinci-003'',
          Choices = [Some \<lparr>Text = ''Hi!'', Index = 0, FinishReason = ''stop'', ChoiceLogProbs = None\<rparr>],
          Usage = Some [(''total_tokens'', JNumber ''7'')]\<rparr>, None)"
    by (simp add: CreateCompletion_def okSend_def Unmarshal_hiBody)
  note t = serialization_needs_finite_floats_only
      [OF f m, where sc = strconvTable and send = okSend and ctx = "()" and co = wireTypes]
  show ?thesis
    using t
    by (simp add: Marshal_outOfRange c)
qed

text \<open>
  The claim as stated covers every request value: a NaN temperature is a value of the field,
  Marshal refuses it, and the entry point returns that error.
\<close>

theorem nan_temperature_counterexample:
  "MarshalRequest strconvTable nameCodec nanTemperature = Inl UnsupportedValueError
   \<and> CreateCompletion (Client_post okSend strconvTable nameCodec) strconvTable nameCodec wireTypes ()
        nanTemperature = (None, Some UnsupportedValueError)"
proof -
  have m: "MarshalRequest strconvTable nameCodec nanTemperature = Inl UnsupportedValueError"
    by (simp add: MarshalRequest_def nanTemperature_def zeroCompletionRequest_def enc_defs
        nameCodec_def isFinite64_def)
  then show ?thesis
    by (simp add: CreateCompletion_def Client_post_def)
qed

section \<open>The round trip of a request\<close>

subsection \<open>Integers, strings and maps\<close>

lemma digit_props:
  assumes "d < 10"
  shows "isDigit (digit d)" and "digitVal (digit d) = d"
proof -
  have "d = 0 \<or> d = 1 \<or> d = 2 \<or> d = 3 \<or> d = 4 \<or> d = 5 \<or> d = 6 \<or> d = 7 \<or> d = 8 \<or> d = 9"
    using assms by arith
  then show "isDigit (digit d)" and "digitVal (digit d) = d"
    by (auto simp: digit_def isDigit_def digitVal_def)
qed

lemma digits_all_digits: "list_all isDigit (digits n)"
proof (induction n rule: digits.induct)
  case (1 n)
  show ?case
  proof (cases "n < 10")
    case True
    then show ?thesis by (simp add: digits_small digit_props)
  next
    case False
    then show ?thesis using 1 by (simp add: digits_large digit_props)
  qed
qed

lemma digits_not_Nil: "digits n \<noteq> []"
  by (cases "n < 10") (simp_all add: digits_small digits_large)

lemma digits_value: "foldl (\<lambda>acc c. 10 * acc + digitVal c) 0 (digits n) = n"
proof (induction n rule: digits.induct)
  case (1 n)
  show ?case
  proof (cases "n < 10")
    case True
    then show ?thesis by (simp add: digits_small digit_props)
  next
    case False
    then show ?thesis using 1 by (simp add: digits_large digit_props)
  qed
qed

lemma parseDigits_digits: "parseDigits (digits n) = Some n"
  by (simp add: parseDigits_def digits_all_digits digits_not_Nil digits_value)

lemma digits_head: "\<exists>c cs. digits n = c # cs \<and> isDigit c"
  using digits_all_digits [of n] digits_not_Nil [of n] by (cases "digits n") simp_all

lemma ParseInt_FormatInt:
  assumes "- (2 ^ 63) \<le> i" and "i < 2 ^ 63"
  shows "ParseInt (FormatInt i) = Some i"
proof (cases "i < 0")
  case True
  then show ?thesis
    using assms by (simp add: ParseInt_def FormatInt_def parseDigits_digits)
next
  case False
  obtain c cs where d: "digits (nat i) = c # cs" and c: "isDigit c"
    using digits_head by blast
  have "c \<noteq> CHR ''-''" "c \<noteq> CHR ''+''"
    using c by (auto simp: isDigit_def)
  moreover have "parseDigits (c # cs) = Some (nat i)"
    using parseDigits_digits [of "nat i"] d by simp
  ultimately show ?thesis
    using False assms d by (simp add: ParseInt_def FormatInt_def)
qed

lemma decInt_encInt: "decInt (encInt w) old = Inr w"
proof -
  have "- (2 ^ 63) \<le> sint w" "sint w < 2 ^ 63"
    using sint_ge [of w] sint_lt [of w] by simp_all
  then have "ParseInt (FormatInt (sint w)) = Some (sint w)"
    by (rule ParseInt_FormatInt)
  then show ?thesis
    by (simp add: decInt_def encInt_def)
qed

lemma decString_encString: "validUTF8 s \<Longrightarrow> decString (encString s) old = Inr s"
  by (simp add: decString_def encString_def validUTF8_def)

lemma decElems_encStrings:
  "list_all validUTF8 xs \<Longrightarrow> decElems decString [] (map encString xs) old = Inr xs"
  by (induction xs arbitrary: old) (simp_all add: decString_encString)

lemma mapSet_last:
  "\<forall>k' \<in> set (map fst m). k' < k \<Longrightarrow> mapSet k v m = m @ [(k, v)]"
  by (induction m) auto

lemma decMembers_encIntMap:
  assumes "sorted_wrt (<) (map fst (acc @ m))" and "list_all validUTF8 (map fst m)"
  shows "decMembers decInt 0 (map (\<lambda>(k, v). (coerceUTF8 k, encInt v)) m) acc = Inr (acc @ m)"
  using assms
proof (induction m arbitrary: acc)
  case Nil
  then show ?case by simp
next
  case (Cons kv m)
  obtain k v where kv: "kv = (k, v)" by (cases kv)
  have k: "coerceUTF8 k = k"
    using Cons.prems(2) kv by (simp add: validUTF8_def)
  have "\<forall>k' \<in> set (map fst acc). k' < k"
    using Cons.prems(1) kv by (auto simp: sorted_wrt_append)
  then have s: "mapSet k v acc = acc @ [(k, v)]"
    by (rule mapSet_last)
  have "decMembers decInt 0 (map (\<lambda>(k, v). (coerceUTF8 k, encInt v)) m) (acc @ [(k, v)])
          = Inr ((acc @ [(k, v)]) @ m)"
    using Cons.prems kv by (intro Cons.IH) simp_all
  then show ?case
    using kv k s by (simp add: decInt_encInt)
qed

subsection \<open>One field at a time\<close>

lemma decFields_append:
  "decFields F S (xs @ ys) r =
     (case decFields F S xs r of Inl e \<Rightarrow> Inl e | Inr r' \<Rightarrow> decFields F S ys r')"
  by (induction xs arbitrary: r) (auto split: option.splits sum.splits)

lemma fieldFor_exact: "k \<in> set names \<Longrightarrow> fieldFor names k = Some k"
  by (simp add: fieldFor_def)

lemma step_always:
  assumes "k \<in> set F" and "S k j x = Inr y"
  shows "decFields F S (projr (always k (Inr j))) x = Inr y"
  using assms by (simp add: always_def fieldFor_exact)

lemma step_omitempty:
  assumes "k \<in> set F" and "\<not> e \<Longrightarrow> v = Inr j" and "\<not> e \<Longrightarrow> S k j x = Inr y" and "e \<Longrightarrow> y = x"
  shows "decFields F S (projr (omitempty k e v)) x = Inr y"
  using assms by (cases e) (simp_all add: omitempty_def always_def fieldFor_exact)


lemma in_requestFields:
  "''model'' \<in> set requestFields" "''prompt'' \<in> set requestFields"
  "''suffix'' \<in> set requestFields" "''max_tokens'' \<in> set requestFields"
  "''temperature'' \<in> set requestFields" "''top_p'' \<in> set requestFields"
  "''n'' \<in> set requestFields" "''stream'' \<in> set requestFields"
  "''logprobs'' \<in> set requestFields" "''echo'' \<in> set requestFields"
  "''stop'' \<in> set requestFields" "''presence_penalty'' \<in> set requestFields"
  "''frequency_penalty'' \<in> set requestFields" "''best_of'' \<in> set requestFields"
  "''logit_bias'' \<in> set requestFields" "''user'' \<in> set requestFields"
  by (simp_all add: requestFields_def)

lemma store_string:
  "validUTF8 s \<Longrightarrow> storeRequestField sc mc ''prompt'' (encString s) x = Inr (x\<lparr>Prompt := s\<rparr>)"
  "validUTF8 s \<Longrightarrow> storeRequestField sc mc ''suffix'' (encString s) x = Inr (x\<lparr>Suffix := s\<rparr>)"
  "validUTF8 s \<Longrightarrow> storeRequestField sc mc ''user'' (encString s) x = Inr (x\<lparr>User := s\<rparr>)"
  by (simp_all add: storeRequestField_def decString_encString)

lemma store_int:
  "storeRequestField sc mc ''max_tokens'' (encInt i) x = Inr (x\<lparr>MaxTokens := i\<rparr>)"
  "storeRequestField sc mc ''n'' (encInt i) x = Inr (x\<lparr>N := i\<rparr>)"
  "storeRequestField sc mc ''best_of'' (encInt i) x = Inr (x\<lparr>BestOf := i\<rparr>)"
  by (simp_all add: storeRequestField_def decInt_encInt)

lemma store_logprobs:
  "storeRequestField sc mc ''logprobs'' (encInt i) x = Inr (x\<lparr>LogProbs := Some i\<rparr>)"
  by (simp add: storeRequestField_def decPtr_def encInt_def decInt_encInt [unfolded encInt_def])

lemma store_bool:
  "storeRequestField sc mc ''stream'' (encBool b) x = Inr (x\<lparr>Stream := b\<rparr>)"
  "storeRequestField sc mc ''echo'' (encBool b) x = Inr (x\<lparr>Echo := b\<rparr>)"
  by (simp_all add: storeRequestField_def decBool_def encBool_def)

lemma store_float64:
  assumes "ParseFloat64 sc l = Some f"
  shows "storeRequestField sc mc ''temperature'' (JNumber l) x = Inr (x\<lparr>Temperature := Some f\<rparr>)"
    and "storeRequestField sc mc ''top_p'' (JNumber l) x = Inr (x\<lparr>TopP := Some f\<rparr>)"
  using assms by (simp_all add: storeRequestField_def decPtr_def decFloat64_def)

lemma store_float32:
  assumes "ParseFloat32 sc l = Some f"
  shows "storeRequestField sc mc ''presence_penalty'' (JNumber l) x = Inr (x\<lparr>PresencePenalty := f\<rparr>)"
    and "storeRequestField sc mc ''frequency_penalty'' (JNumber l) x = Inr (x\<lparr>FrequencyPenalty := f\<rparr>)"
  using assms by (simp_all add: storeRequestField_def decFloat32_def)

lemma store_stop:
  "list_all validUTF8 xs \<Longrightarrow>
     storeRequestField sc mc ''stop'' (encStrings xs) x = Inr (x\<lparr>Stop := xs\<rparr>)"
  by (simp add: storeRequestField_def decSlice_def encStrings_def decElems_encStrings)

lemma store_logit_bias:
  assumes "keysAscending m" and "list_all validUTF8 (map fst m)" and "LogitBias x = []"
  shows "storeRequestField sc mc ''logit_bias'' (encIntMap m) x = Inr (x\<lparr>LogitBias := m\<rparr>)"
proof -
  have "decMembers decInt 0 (map (\<lambda>(k, v). (coerceUTF8 k, encInt v)) m) [] = Inr ([] @ m)"
    using assms(1,2) by (intro decMembers_encIntMap) (simp_all add: keysAscending_def)
  then show ?thesis
    using assms(3) by (simp add: storeRequestField_def decMap_def encIntMap_def)
qed

lemma store_model:
  "unmarshalModel mc j (Model x) = Some m \<Longrightarrow>
     storeRequestField sc mc ''model'' j x = Inr (x\<lparr>Model := m\<rparr>)"
  by (simp add: storeRequestField_def ofOption_def)

text \<open>
  Claim C1, as the code has it. A request whose floats are finite and printed by strconv so
  that they read back, whose strings are valid UTF-8 (the logit-bias entries listed by
  ascending key, as a map is represented), and whose model identifier reads back from what
  it writes, serializes, and its body deserializes into a zero request to the same request
  on every set field; the unset fields are at their zero values (a penalty of -0 becomes
  +0).
\<close>

theorem request_round_trip:
  assumes fin: "finiteFloats r" and rt: "floatsRoundTrip sc r" and vs: "validStrings r"
    and ka: "keysAscending (LogitBias r)"
    and mm: "marshalModel mc (Model r) = Some j"
    and um: "unmarshalModel mc j (zeroModel mc) = Some (Model r)"
  shows "\<exists>body. MarshalRequest sc mc r = Inr body
           \<and> Unmarshal (decCompletionRequest sc mc) (Encodes body) (zeroCompletionRequest mc)
               = Inr (r\<lparr>PresencePenalty := canonZero32 (PresencePenalty r),
                        FrequencyPenalty := canonZero32 (FrequencyPenalty r)\<rparr>)"
proof -
  let ?S = "storeRequestField sc mc :: string \<Rightarrow> json \<Rightarrow> 'a CompletionRequest \<Rightarrow> error + 'a CompletionRequest"
  define r0 where "r0 = zeroCompletionRequest mc"
  define r1 where "r1 = r0\<lparr>Model := Model r\<rparr>"
  define r2 where "r2 = r1\<lparr>Prompt := Prompt r\<rparr>"
  define r3 where "r3 = r2\<lparr>Suffix := Suffix r\<rparr>"
  define r4 where "r4 = r3\<lparr>MaxTokens := MaxTokens r\<rparr>"
  define r5 where "r5 = r4\<lparr>Temperature := Temperature r\<rparr>"
  define r6 where "r6 = r5\<lparr>TopP := TopP r\<rparr>"
  define r7 where "r7 = r6\<lparr>N := N r\<rparr>"
  define r8 where "r8 = r7\<lparr>Stream := Stream r\<rparr>"
  define r9 where "r9 = r8\<lparr>LogProbs := LogProbs r\<rparr>"
  define r10 where "r10 = r9\<lparr>Echo := Echo r\<rparr>"
  define r11 where "r11 = r10\<lparr>Stop := Stop r\<rparr>"
  define r12 where "r12 = r11\<lparr>PresencePenalty := canonZero32 (PresencePenalty r)\<rparr>"
  define r13 where "r13 = r12\<lparr>FrequencyPenalty := canonZero32 (FrequencyPenalty r)\<rparr>"
  define r14 where "r14 = r13\<lparr>BestOf := BestOf r\<rparr>"
  define r15 where "r15 = r14\<lparr>LogitBias := LogitBias r\<rparr>"
  define r16 where "r16 = r15\<lparr>User := User r\<rparr>"
  note rs = r16_def r15_def r14_def r13_def r12_def r11_def r10_def r9_def r8_def r7_def r6_def
    r5_def r4_def r3_def r2_def r1_def r0_def zeroCompletionRequest_def
  have s1: "decFields requestFields ?S (projr (always ''model'' (encModel mc (Model r)))) r0 = Inr r1"
    unfolding r1_def
    using mm um
    by (simp add: encModel_def step_always in_requestFields store_model r0_def
        zeroCompletionRequest_def)
  have s2: "decFields requestFields ?S
      (projr (omitempty ''prompt'' (Prompt r = []) (Inr (encString (Prompt r))))) r1 = Inr r2"
    using vs
    by (intro step_omitempty [where j = "encString (Prompt r)"] in_requestFields)
       (simp_all add: store_string validStrings_def rs)
  have s3: "decFields requestFields ?S
      (projr (omitempty ''suffix'' (Suffix r = []) (Inr (encString (Suffix r))))) r2 = Inr r3"
    using vs
    by (intro step_omitempty [where j = "encString (Suffix r)"] in_requestFields)
       (simp_all add: store_string validStrings_def rs)
  have s4: "decFields requestFields ?S
      (projr (omitempty ''max_tokens'' (MaxTokens r = 0) (Inr (encInt (MaxTokens r))))) r3 = Inr r4"
    by (intro step_omitempty [where j = "encInt (MaxTokens r)"] in_requestFields)
       (simp_all add: store_int rs)
  have s5: "decFields requestFields ?S
      (projr (omitempty ''temperature'' (Temperature r = None)
           (case Temperature r of None \<Rightarrow> Inr JNull | Some f \<Rightarrow> encFloat64 sc f))) r4 = Inr r5"
  proof (cases "Temperature r")
    case None
    then show ?thesis by (simp add: omitempty_def rs)
  next
    case (Some f)
    have "isFinite64 f" "ParseFloat64 sc (FormatFloat64 sc f) = Some f"
      using fin rt Some by (simp_all add: finiteFloats_def floatsRoundTrip_def)
    then show ?thesis
      using Some
      by (intro step_omitempty [where j = "JNumber (FormatFloat64 sc f)"] in_requestFields)
         (simp_all add: encFloat64_def store_float64 r5_def)
  qed
  have s6: "decFields requestFields ?S
      (projr (omitempty ''top_p'' (TopP r = None)
           (case TopP r of None \<Rightarrow> Inr JNull | Some f \<Rightarrow> encFloat64 sc f))) r5 = Inr r6"
  proof (cases "TopP r")
    case None
    then show ?thesis by (simp add: omitempty_def rs)
  next
    case (Some f)
    have "isFinite64 f" "ParseFloat64 sc (FormatFloat64 sc f) = Some f"
      using fin rt Some by (simp_all add: finiteFloats_def floatsRoundTrip_def)
    then show ?thesis
      using Some
      by (intro step_omitempty [where j = "JNumber (FormatFloat64 sc f)"] in_requestFields)
         (simp_all add: encFloat64_def store_float64 r6_def)
  qed
  have s7: "decFields requestFields ?S
      (projr (omitempty ''n'' (N r = 0) (Inr (encInt (N r))))) r6 = Inr r7"
    by (intro step_omitempty [where j = "encInt (N r)"] in_requestFields)
       (simp_all add: store_int rs)
  have s8: "decFields requestFields ?S
      (projr (omitempty ''stream'' (\<not> Stream r) (Inr (encBool (Stream r))))) r7 = Inr r8"
    by (intro step_omitempty [where j = "encBool (Stream r)"] in_requestFields)
       (simp_all add: store_bool rs)
  have s9: "decFields requestFields ?S
      (projr (omitempty ''logprobs'' (LogProbs r = None)
           (case LogProbs r of None \<Rightarrow> Inr JNull | Some i \<Rightarrow> Inr (encInt i)))) r8 = Inr r9"
  proof (cases "LogProbs r")
    case None
    then show ?thesis by (simp add: omitempty_def rs)
  next
    case (Some i)
    then show ?thesis
      by (intro step_omitempty [where j = "encInt i"] in_requestFields)
         (simp_all add: store_logprobs r9_def)
  qed
  have s10: "decFields requestFields ?S
      (projr (omitempty ''echo'' (\<not> Echo r) (Inr (encBool (Echo r))))) r9 = Inr r10"
    by (intro step_omitempty [where j = "encBool (Echo r)"] in_requestFields)
       (simp_all add: store_bool rs)
  have s11: "decFields requestFields ?S
      (projr (omitempty ''stop'' (Stop r = []) (Inr (encStrings (Stop r))))) r10 = Inr r11"
    using vs
    by (intro step_omitempty [where j = "encStrings (Stop r)"] in_requestFields)
       (simp_all add: store_stop validStrings_def rs)
  have s12: "decFields requestFields ?S
      (projr (omitempty ''presence_penalty'' (isZero32 (PresencePenalty r))
           (encFloat32 sc (PresencePenalty r)))) r11 = Inr r12"
    using fin rt
    by (intro step_omitempty [where j = "JNumber (FormatFloat32 sc (PresencePenalty r))"]
          in_requestFields)
       (simp_all add: finiteFloats_def floatsRoundTrip_def encFloat32_def store_float32
          canonZero32_def rs)
  have s13: "decFields requestFields ?S
      (projr (omitempty ''frequency_penalty'' (isZero32 (FrequencyPenalty r))
           (encFloat32 sc (FrequencyPenalty r)))) r12 = Inr r13"
    using fin rt
    by (intro step_omitempty [where j = "JNumber (FormatFloat32 sc (FrequencyPenalty r))"]
          in_requestFields)
       (simp_all add: finiteFloats_def floatsRoundTrip_def encFloat32_def store_float32
          canonZero32_def rs)
  have s14: "decFields requestFields ?S
      (projr (omitempty ''best_of'' (BestOf r = 0) (Inr (encInt (BestOf r))))) r13 = Inr r14"
    by (intro step_omitempty [where j = "encInt (BestOf r)"] in_requestFields)
       (simp_all add: store_int rs)
  have s15: "decFields requestFields ?S
      (projr (omitempty ''logit_bias'' (LogitBias r = []) (Inr (encIntMap (LogitBias r))))) r14
        = Inr r15"
    using vs ka
    by (intro step_omitempty [where j = "encIntMap (LogitBias r)"] in_requestFields)
       (simp_all add: store_logit_bias validStrings_def rs)
  have s16: "decFields requestFields ?S
      (projr (omitempty ''user'' (User r = []) (Inr (encString (User r))))) r15 = Inr r16"
    using vs
    by (intro step_omitempty [where j = "encString (User r)"] in_requestFields)
       (simp_all add: store_string validStrings_def rs)
  have final: "r16 = r\<lparr>PresencePenalty := canonZero32 (PresencePenalty r),
                        FrequencyPenalty := canonZero32 (FrequencyPenalty r)\<rparr>"
    by (cases r) (simp add: rs)
  show ?thesis
    unfolding MarshalRequest_members [OF fin mm] Unmarshal_def decCompletionRequest_def
      decStruct_def r0_def [symmetric]
    by (simp add: decFields_append s1 s2 s3 s4 s5 s6 s7 s8 s9 s10 s11 s12 s13 s14 s15 s16 final)
qed

lemmas req_defs = Unmarshal_def decCompletionRequest_def requestFields_def storeRequestField_def
  zeroCompletionRequest_def

lemma Marshal_everyField:
  "MarshalRequest strconvTable nameCodec everyField = Inr everyFieldBody"
  by (simp add: MarshalRequest_def everyField_def everyFieldBody_def enc_defs nameCodec_def
      strconvTable_def formatTable32_def formatTable64_def isFinite32_def isFinite64_def)

theorem request_round_trip_witness:
  "MarshalRequest strconvTable nameCodec everyField = Inr everyFieldBody
   \<and> Unmarshal (decCompletionRequest strconvTable nameCodec) (Encodes everyFieldBody)
        (zeroCompletionRequest nameCodec) = Inr (everyField\<lparr>FrequencyPenalty := 0\<rparr>)"
proof -
  have fin: "finiteFloats everyField"
    by (simp add: finiteFloats_def everyField_def isFinite32_def isFinite64_def)
  have rt: "floatsRoundTrip strconvTable everyField"
    by (simp add: floatsRoundTrip_def everyField_def strconvTable_def formatTable32_def
        formatTable64_def parseTable32_def parseTable64_def isZero32_def)
  have vs: "validStrings everyField"
    by (simp add: validStrings_def everyField_def validUTF8_def inRange_def)
  have ka: "keysAscending (LogitBias everyField)"
    by (simp add: keysAscending_def everyField_def less_char_def)
  have mm: "marshalModel nameCodec (Model everyField) = Some (JString ''text-davinci-003'')"
    by (simp add: everyField_def nameCodec_def enc_defs)
  have um: "unmarshalModel nameCodec (JString ''text-davinci-003'') (zeroModel nameCodec)
              = Some (Model everyField)"
    by (simp add: everyField_def nameCodec_def)
  have c: "everyField\<lparr>PresencePenalty := canonZero32 (PresencePenalty everyField),
             FrequencyPenalty := canonZero32 (FrequencyPenalty everyField)\<rparr>
           = everyField\<lparr>FrequencyPenalty := 0\<rparr>"
    by (simp add: everyField_def canonZero32_def isZero32_def)
  show ?thesis
    using request_round_trip [OF fin rt vs ka mm um]
    by (simp add: Marshal_everyField c)
qed

text \<open>
  The claim as stated covers every request: a prompt that is not valid UTF-8 is a set field,
  Marshal writes U+FFFD for the offending byte, and the prompt read back differs.
\<close>

theorem invalid_utf8_prompt_counterexample:
  "MarshalRequest strconvTable nameCodec badPrompt = Inr badPromptBody
   \<and> Unmarshal (decCompletionRequest strconvTable nameCodec) (Encodes badPromptBody)
        (zeroCompletionRequest nameCodec)
       = Inr (badPrompt\<lparr>Prompt := [CHR 0xEF, CHR 0xBF, CHR 0xBD]\<rparr>)
   \<and> Prompt badPrompt = [CHR 0xFF]"
proof -
  have m: "MarshalRequest strconvTable nameCodec badPrompt = Inr badPromptBody"
    by (simp add: MarshalRequest_def badPrompt_def badPromptBody_def zeroCompletionRequest_def
        enc_defs nameCodec_def)
  have u: "Unmarshal (decCompletionRequest strconvTable nameCodec) (Encodes badPromptBody)
        (zeroCompletionRequest nameCodec)
       = Inr (badPrompt\<lparr>Prompt := [CHR 0xEF, CHR 0xBF, CHR 0xBD]\<rparr>)"
    by (simp add: badPromptBody_def badPrompt_def req_defs dec_defs nameCodec_def)
  show ?thesis
    using m u by (simp add: badPrompt_def)
qed

end
